theory Spec2Isabelle
  imports Main "HOL-Library.Word" "HOL-Library.Monad_Syntax"
begin

unbundle bit_operations_syntax

section \<open>Data model\<close>

text \<open>
  The repository is a small HTTP service: \<^verbatim>\<open>GET /track/<uuid>.flac\<close> looks the track up in
  the catalog (IMPALA), fetches the FLAC file from the object store (MOSS) and answers with
  the file. Two generations of the handler are embedded here:
  \<^item> \<^verbatim>\<open>src/main.go\<close>: downloads the file into a temporary file, runs \<^verbatim>\<open>metaflac\<close> on it
    and serves the result;
  \<^item> \<^verbatim>\<open>src/unnamed/part_002\<close>: streams the file, walking the metadata blocks with a block
    header codec (\<^verbatim>\<open>parseBlockHeader\<close>, \<^verbatim>\<open>BlockHeader.Marshal\<close>).

  A byte is an 8-bit word, a Go \<^verbatim>\<open>[]byte\<close> or stream a list of bytes, a Go \<^verbatim>\<open>string\<close> a list
  of 8-bit characters.
\<close>

type_synonym byte = "8 word"
type_synonym bytes = "byte list"

definition bytes_of :: "string \<Rightarrow> bytes" where
  "bytes_of s = map of_char s"

text \<open>
  The error values of the program: the two error types it declares, and one value for each
  library failure it can meet (an HTTP request that fails, a JSON body that does not decode,
  a reader that ends early).
\<close>

datatype error =
    TrackNotFoundError string
  | TrackFetchError string
  | RequestError
  | DecodeError
  | ReadError

record TrackJSON =
  Added_At :: string
  Added_By :: string
  Artist :: string
  Disc_Num :: "64 word"
  File_Path :: string
  Has_FCC :: string
  Holding_ID :: string
  ID :: string
  Recording_MBID :: string
  Title :: string
  Track_MBID :: string
  Track_Num :: "64 word"

text \<open>
  \<^verbatim>\<open>type BlockHeader struct { LastBlock bool; Type uint8; Length int64 }\<close>.
  \<open>Length\<close> is the value of the \<^verbatim>\<open>int64\<close> field as an integer.
\<close>

record BlockHeader =
  LastBlock :: bool
  Type :: "8 word"
  Length :: int

text \<open>
  Of \<^verbatim>\<open>*http.Request\<close>: the method, \<^verbatim>\<open>r.URL.Path\<close>, and the header fields as \<^verbatim>\<open>r.Header\<close> holds
  them (the keys in canonical form, \<^verbatim>\<open>Range\<close>, \<^verbatim>\<open>If-None-Match\<close>), in the order received.
\<close>

record request =
  Method :: string
  Path :: string
  Header :: "(string \<times> string) list"

text \<open>
  What \<^verbatim>\<open>http.Get\<close> gives back: an error with no response, or a response with a status
  code and a body.
\<close>

datatype fetch = TransportError | Response nat bytes

text \<open>
  What the handler does to the outside world, besides answering: calls to the catalog and
  to the object store, and (in \<^verbatim>\<open>src/main.go\<close>) the life of the temporary file.
  \<open>TempWrite bs\<close> stands for the whole of \<^verbatim>\<open>io.Copy(tmpf, resp.Body)\<close>: \<open>bs\<close> are the bytes
  the file holds after it. \<open>Metaflac args stdin\<close> is the run of \<^verbatim>\<open>metaflac\<close> on the file,
  with the arguments before the file name and the standard input.
\<close>

datatype effect =
    ImpalaLogin
  | ImpalaGetTrack string
  | MossGet string string
  | TempFile
  | TempWrite bytes
  | TempClose
  | Metaflac "string list" string
  | OpenTemp
  | RemoveTemp

datatype logline = Msg string | Block bool "8 word" int

text \<open>
  The state threaded through a request. \<open>status\<close> and \<open>body\<close> are what the
  \<^verbatim>\<open>http.ResponseWriter\<close> has sent: the status line (\<open>None\<close> while nothing is sent) and the
  body bytes that reached the client. \<open>room\<close> is the client: \<open>None\<close> when it reads
  everything, \<open>Some n\<close> when the connection breaks after \<open>n\<close> more body bytes, which is how
  a \<^verbatim>\<open>w.Write\<close> fails. \<open>logs\<close> are the \<^verbatim>\<open>log.Printf\<close> lines, \<open>effects\<close> the calls made so
  far, \<open>panicked\<close> is set when the handler dereferences a nil pointer.
\<close>

record world =
  status :: "nat option"
  body :: bytes
  room :: "nat option"
  logs :: "logline list"
  effects :: "effect list"
  panicked :: bool

text \<open>
  The outside world, as the answers it gives. \<open>newRequestFails\<close>: \<^verbatim>\<open>http.NewRequest\<close>
  rejects the login URL; \<open>loginFails\<close>: \<^verbatim>\<open>client.Do(loginReq)\<close> fails; \<open>impalaGet\<close>: the
  catalog's answer for a track id; \<open>jsonDecode\<close>: \<^verbatim>\<open>json.Decoder.Decode\<close> into a
  \<^verbatim>\<open>TrackJSON\<close>; \<open>mossGet\<close>: the object store's answer for a holding id and a file path.
  For \<^verbatim>\<open>src/main.go\<close>: \<open>tempFileFails\<close>, \<open>diskRoom\<close> (the bytes the temporary file can
  take, \<open>None\<close> for no limit), \<open>closeFails\<close>, \<open>openFails\<close>, and \<open>metaflac\<close>: the external
  tool, from its arguments, its standard input and the file to the rewritten file, or
  \<open>None\<close> when it exits with an error; \<open>serveConditional\<close>: the status and the body with
  which \<^verbatim>\<open>http.ServeContent\<close> answers a request that carries a range or a condition, from
  the request and the content of the file (206 and a part of the file, 416, 304, 412).
\<close>

record env =
  newRequestFails :: bool
  loginFails :: bool
  impalaGet :: "string \<Rightarrow> fetch"
  jsonDecode :: "bytes \<Rightarrow> TrackJSON option"
  mossGet :: "string \<Rightarrow> string \<Rightarrow> fetch"
  tempFileFails :: bool
  diskRoom :: "nat option"
  closeFails :: bool
  metaflac :: "string list \<Rightarrow> string \<Rightarrow> bytes \<Rightarrow> bytes option"
  openFails :: bool
  serveConditional :: "request \<Rightarrow> bytes \<Rightarrow> nat \<times> bytes"

section \<open>The response writer and the stream operations\<close>

text \<open>
  The calls of the Go library that the handlers make (\<^verbatim>\<open>net/http\<close>, \<^verbatim>\<open>io\<close>), by what
  they do to the state. Response headers other than the status are left out.
\<close>

definition newResponse :: "nat option \<Rightarrow> world" where
  "newResponse rm =
     \<lparr>status = None, body = [], room = rm, logs = [], effects = [], panicked = False\<rparr>"

definition logf :: "logline \<Rightarrow> world \<Rightarrow> world" where
  "logf l w = w\<lparr>logs := logs w @ [l]\<rparr>"

definition effect :: "effect \<Rightarrow> world \<Rightarrow> world" where
  "effect e w = w\<lparr>effects := effects w @ [e]\<rparr>"

text \<open>\<^verbatim>\<open>w.WriteHeader(code)\<close>: the first status sent stays.\<close>

definition WriteHeader :: "nat \<Rightarrow> world \<Rightarrow> world" where
  "WriteHeader code w = (if status w = None then w\<lparr>status := Some code\<rparr> else w)"

text \<open>
  \<^verbatim>\<open>w.Write(bs)\<close>: sends status 200 when no status is sent yet, then the bytes the client
  still takes; the flag is \<^verbatim>\<open>err == nil\<close>.
\<close>

definition Write :: "bytes \<Rightarrow> world \<Rightarrow> bool \<times> world" where
  "Write bs w =
     (let w1 = WriteHeader 200 w
      in case room w1 of
           None \<Rightarrow> (True, w1\<lparr>body := body w1 @ bs\<rparr>)
         | Some n \<Rightarrow>
             if length bs \<le> n
             then (True, w1\<lparr>body := body w1 @ bs, room := Some (n - length bs)\<rparr>)
             else (False, w1\<lparr>body := body w1 @ take n bs, room := Some 0\<rparr>))"

text \<open>What reaches a client with room \<open>rm\<close> of the bytes written to it.\<close>

definition delivered :: "nat option \<Rightarrow> bytes \<Rightarrow> bytes" where
  "delivered rm bs = (case rm of None \<Rightarrow> bs | Some n \<Rightarrow> take n bs)"

definition accepts :: "nat option \<Rightarrow> nat \<Rightarrow> bool" where
  "accepts rm n = (case rm of None \<Rightarrow> True | Some k \<Rightarrow> n \<le> k)"

text \<open>\<^verbatim>\<open>http.Error(w, msg, code)\<close>: the status, then the message and a newline as the body.\<close>

definition Error :: "string \<Rightarrow> nat \<Rightarrow> world \<Rightarrow> world" where
  "Error msg code w = snd (Write (bytes_of (msg @ ''\<newline>'')) (WriteHeader code w))"

definition NotFound :: "world \<Rightarrow> world" where
  "NotFound w = Error ''404 page not found'' 404 w"

text \<open>\<^verbatim>\<open>io.ReadFull(r, buf[:n])\<close>: the \<open>n\<close> bytes and the rest of the stream, or an error.\<close>

definition ReadFull :: "bytes \<Rightarrow> nat \<Rightarrow> error + (bytes \<times> bytes)" where
  "ReadFull r n = (if length r < n then Inl ReadError else Inr (take n r, drop n r))"

text \<open>
  \<^verbatim>\<open>io.CopyN(w, r, n)\<close>: writes the next \<open>n\<close> bytes of the stream, or those that are left;
  it fails when the write fails or the stream ends before \<open>n\<close> bytes. \<^verbatim>\<open>io.Copy(w, r)\<close>
  writes all that is left. Neither calls \<^verbatim>\<open>Write\<close> when there is nothing to write.
\<close>

definition Copy :: "world \<Rightarrow> bytes \<Rightarrow> bool \<times> world" where
  "Copy w r = (if r = [] then (True, w) else Write r w)"

definition CopyN :: "world \<Rightarrow> bytes \<Rightarrow> nat \<Rightarrow> bool \<times> world \<times> bytes" where
  "CopyN w r n =
     (let (ok, w1) = Copy w (take n r)
      in (ok \<and> n \<le> length r, w1, drop n r))"

section \<open>The block header codec (src/unnamed/part_002, lines 57-84)\<close>

text \<open>
  Modelled from the spec: the bit reader of package \<^verbatim>\<open>github.com/eaburns/bit\<close>, which
  \<^verbatim>\<open>parseBlockHeader\<close> calls, is not under src/. The spec has the header unpacked
  "most-significant-bit-first": \<open>byte_bits\<close> are the bits of a byte in that order,
  \<open>bits_value\<close> is the unsigned number a run of bits spells, and \<open>ReadFields\<close> cuts the
  bits into fields of the given widths, failing when the bits run out.
\<close>

definition byte_bits :: "byte \<Rightarrow> bool list" where
  "byte_bits b = map (bit b) [7, 6, 5, 4, 3, 2, 1, 0]"

definition bits_value :: "bool list \<Rightarrow> 64 word" where
  "bits_value bs = foldl (\<lambda>v b. 2 * v + of_bool b) 0 bs"

fun ReadFields :: "nat list \<Rightarrow> bool list \<Rightarrow> error + 64 word list" where
  "ReadFields [] bs = Inr []"
| "ReadFields (n # ns) bs =
     (if length bs < n then Inl ReadError
      else case ReadFields ns (drop n bs) of
             Inl e \<Rightarrow> Inl e
           | Inr fs \<Rightarrow> Inr (bits_value (take n bs) # fs))"

text \<open>
  \<^verbatim>\<open>parseBlockHeader\<close>: the bit reader sits on an \<^verbatim>\<open>io.LimitedReader\<close> of 32 bytes and the
  three fields take 32 bits, so a header that parses uses up 4 bytes of the stream.
  \<^verbatim>\<open>uint8(fields[1])\<close> keeps the low 8 bits, \<^verbatim>\<open>int64(fields[2])\<close> reads the 64 bits as
  signed.
\<close>

definition parseBlockHeader :: "bytes \<Rightarrow> error + (BlockHeader \<times> bytes)" where
  "parseBlockHeader r =
     (case ReadFields [1, 7, 24] (concat (map byte_bits (take 32 r))) of
        Inl e \<Rightarrow> Inl e
      | Inr fs \<Rightarrow>
          Inr (\<lparr>LastBlock = (fs ! 0 = 1),
                Type = ucast (fs ! 1),
                Length = sint (fs ! 2)\<rparr>, drop 4 r))"

text \<open>
  \<^verbatim>\<open>Marshal\<close>: \<^verbatim>\<open>b.Length >> k\<close> is an arithmetic shift of an \<^verbatim>\<open>int64\<close> (\<open>drop_bit\<close> on
  \<open>int\<close> rounds down, as the shift does) and \<^verbatim>\<open>byte(...)\<close> keeps the low 8 bits.
\<close>

definition Marshal :: "BlockHeader \<Rightarrow> bytes" where
  "Marshal b =
     (let packed = [Type b, word_of_int (drop_bit 16 (Length b)),
                    word_of_int (drop_bit 8 (Length b)), word_of_int (Length b)]
      in if LastBlock b then packed[0 := packed ! 0 XOR 0x80] else packed)"

section \<open>The request path (trackRe)\<close>

text \<open>
  \<^verbatim>\<open>^/track/(?P<uuid>[a-f0-9]{8}-[a-f0-9]{4}-[a-f0-9]{4}-[a-f0-9]{4}-[a-f0-9]{12}).flac$\<close>
  Every piece of the pattern takes a fixed run of the text, so matching is one pass from
  the left: each matcher below returns the text after its piece, or \<open>None\<close>. The dot
  before \<^verbatim>\<open>flac\<close> is not escaped: it takes any one rune but a newline. Go reads the text as
  UTF-8, \<open>runeLen\<close> is the number of bytes of its first rune (a byte that starts no valid
  encoding counts as one rune of one byte).
\<close>

definition hexdigit :: "char \<Rightarrow> bool" where
  "hexdigit c = (c \<in> set ''abcdef0123456789'')"

definition lit :: "string \<Rightarrow> string \<Rightarrow> string option" where
  "lit l s = (if take (length l) s = l then Some (drop (length l) s) else None)"

definition hexrun :: "nat \<Rightarrow> string \<Rightarrow> string option" where
  "hexrun n s =
     (if length (take n s) = n \<and> list_all hexdigit (take n s) then Some (drop n s) else None)"

definition cont :: "char list \<Rightarrow> nat \<Rightarrow> nat \<Rightarrow> nat \<Rightarrow> bool" where
  "cont s i lo hi = (i < length s \<and> lo \<le> of_char (s ! i) \<and> of_char (s ! i) \<le> hi)"

definition runeLen :: "string \<Rightarrow> nat" where
  "runeLen s =
     (if s = [] then 0
      else let b = (of_char (hd s) :: nat) in
        if b < 0x80 then 1
        else if 0xC2 \<le> b \<and> b \<le> 0xDF then (if cont s 1 0x80 0xBF then 2 else 1)
        else if 0xE0 \<le> b \<and> b \<le> 0xEF then
          (if cont s 1 (if b = 0xE0 then 0xA0 else 0x80) (if b = 0xED then 0x9F else 0xBF)
              \<and> cont s 2 0x80 0xBF then 3 else 1)
        else if 0xF0 \<le> b \<and> b \<le> 0xF4 then
          (if cont s 1 (if b = 0xF0 then 0x90 else 0x80) (if b = 0xF4 then 0x8F else 0xBF)
              \<and> cont s 2 0x80 0xBF \<and> cont s 3 0x80 0xBF then 4 else 1)
        else 1)"

definition anyrune :: "string \<Rightarrow> string option" where
  "anyrune s =
     (if s = [] \<or> hd s = CHR ''\<newline>'' then None else Some (drop (runeLen s) s))"

text \<open>
  \<^verbatim>\<open>trackRe.FindStringSubmatch(path)\<close>: the whole match and the \<^verbatim>\<open>uuid\<close> group, or nothing.
\<close>

definition trackRe :: "string \<Rightarrow> string list" where
  "trackRe p =
     (case do {
        s0 \<leftarrow> lit ''/track/'' p;
        s1 \<leftarrow> hexrun 8 s0;
        s2 \<leftarrow> lit ''-'' s1;
        s3 \<leftarrow> hexrun 4 s2;
        s4 \<leftarrow> lit ''-'' s3;
        s5 \<leftarrow> hexrun 4 s4;
        s6 \<leftarrow> lit ''-'' s5;
        s7 \<leftarrow> hexrun 4 s6;
        s8 \<leftarrow> lit ''-'' s7;
        s9 \<leftarrow> hexrun 12 s8;
        s10 \<leftarrow> anyrune s9;
        s11 \<leftarrow> lit ''flac'' s10;
        if s11 = [] then Some (take 36 s0) else None
      } of
        None \<Rightarrow> []
      | Some uuid \<Rightarrow> [p, uuid])"

text \<open>
  The paths in words, to compare the matcher with. The identifier of the spec is "a
  36-character hyphenated hex identifier": \<open>isUUID\<close> has 36 characters, a hyphen at the
  positions 8, 13, 18 and 23, and a digit or a letter from \<^verbatim>\<open>a\<close> to \<^verbatim>\<open>f\<close> everywhere else.
  \<open>specPath\<close> is the inbound path of the spec, \<^verbatim>\<open>/track/{identifier}.{ext}\<close> with the
  extension \<^verbatim>\<open>flac\<close>. \<open>acceptedPath\<close> is the same with any one rune other than a newline
  in the place of the dot.
\<close>

definition lowerHex :: "char \<Rightarrow> bool" where
  "lowerHex c =
     (let n = (of_char c :: nat) in (48 \<le> n \<and> n \<le> 57) \<or> (97 \<le> n \<and> n \<le> 102))"

definition isUUID :: "string \<Rightarrow> bool" where
  "isUUID u =
     (length u = 36 \<and>
      list_all lowerHex (take 8 u) \<and> take 1 (drop 8 u) = ''-'' \<and>
      list_all lowerHex (take 4 (drop 9 u)) \<and> take 1 (drop 13 u) = ''-'' \<and>
      list_all lowerHex (take 4 (drop 14 u)) \<and> take 1 (drop 18 u) = ''-'' \<and>
      list_all lowerHex (take 4 (drop 19 u)) \<and> take 1 (drop 23 u) = ''-'' \<and>
      list_all lowerHex (drop 24 u))"

definition specPath :: "string \<Rightarrow> bool" where
  "specPath p =
     (isUUID (take 36 (drop 7 p)) \<and> p = ''/track/'' @ take 36 (drop 7 p) @ ''.flac'')"

definition acceptedPath :: "string \<Rightarrow> bool" where
  "acceptedPath p =
     (take 7 p = ''/track/'' \<and> isUUID (take 36 (drop 7 p)) \<and>
      drop 43 p \<noteq> [] \<and> hd (drop 43 p) \<noteq> CHR ''\<newline>'' \<and>
      drop (43 + runeLen (drop 43 p)) p = ''flac'')"

section \<open>The catalog lookup (loadTrackInfo)\<close>

text \<open>
  The same function in \<^verbatim>\<open>src/main.go\<close> (lines 60-100) and \<^verbatim>\<open>src/unnamed/part_002\<close>
  (lines 86-126). \<^verbatim>\<open>cookiejar.New\<close> returns no error. The status of the login response is
  not looked at.
\<close>

definition loadTrackInfo :: "env \<Rightarrow> string \<Rightarrow> world \<Rightarrow> (error + TrackJSON) \<times> world" where
  "loadTrackInfo e trackID w =
     (if newRequestFails e then (Inl RequestError, w)
      else let w1 = effect ImpalaLogin w in
        if loginFails e then (Inl RequestError, w1)
        else let w2 = effect (ImpalaGetTrack trackID) w1 in
          case impalaGet e trackID of
            TransportError \<Rightarrow> (Inl RequestError, w2)
          | Response code b \<Rightarrow>
              if code = 404 then (Inl (TrackNotFoundError trackID), w2)
              else if code \<noteq> 200 then (Inl (TrackFetchError trackID), w2)
              else (case jsonDecode e b of
                      None \<Rightarrow> (Inl DecodeError, w2)
                    | Some data \<Rightarrow> (Inr data, w2)))"

text \<open>
  The test \<^verbatim>\<open>err != nil || resp.StatusCode != 200\<close> on the answer of the object store.
\<close>

definition failed :: "fetch \<Rightarrow> bool" where
  "failed resp = (case resp of TransportError \<Rightarrow> True | Response code b \<Rightarrow> code \<noteq> 200)"

text \<open>The pair that ends most error paths: \<^verbatim>\<open>http.Error(w, "Internal Server Error", 500)\<close>
  and a log line.\<close>

definition fail500 :: "string \<Rightarrow> world \<Rightarrow> world" where
  "fail500 msg w = logf (Msg msg) (Error ''Internal Server Error'' 500 w)"

section \<open>The streaming handler (src/unnamed/part_002, lines 128-233)\<close>

definition magic :: bytes where
  "magic = bytes_of ''fLaC''"

text \<open>
  The loop of lines 184-207. The result is the stream after the last metadata block when
  the loop ends at \<^verbatim>\<open>break\<close>, and \<open>None\<close> when the handler returns from inside the loop.
\<close>

function walkBlocks :: "bytes \<Rightarrow> world \<Rightarrow> bytes option \<times> world" where
  "walkBlocks r w =
     (case parseBlockHeader r of
        Inl e \<Rightarrow> (None, logf (Msg ''Failed to parse block header'') w)
      | Inr (block, r1) \<Rightarrow>
          let w1 = logf (Block (LastBlock block) (Type block) (Length block)) w;
              (ok, w2) = Write (Marshal block) w1
          in if \<not> ok then (None, logf (Msg ''Failed to write response'') w2)
             else let (ok', w3, r2) = CopyN w2 r1 (nat (Length block))
               in if \<not> ok' then (None, logf (Msg ''Unable to decode track'') w3)
                  else if LastBlock block then (Some r2, w3)
                  else walkBlocks r2 w3)"
  by pat_completeness auto
termination
proof -
  have len: "length (concat (map byte_bits xs)) = 8 * length xs" for xs
    by (induction xs) (simp_all add: byte_bits_def)
  have p: "r1 = drop 4 r \<and> 4 \<le> length r" if "parseBlockHeader r = Inr (h, r1)" for r h r1
  proof -
    from that obtain fs where
      "ReadFields [1, 7, 24] (concat (map byte_bits (take 32 r))) = Inr fs" and "r1 = drop 4 r"
      by (auto simp add: parseBlockHeader_def split: sum.splits)
    then have "32 \<le> length (concat (map byte_bits (take 32 r)))" and "r1 = drop 4 r"
      by (auto split: if_splits sum.splits)
    then show ?thesis by (simp add: len)
  qed
  have c: "r2 = drop n r1" if "(ok, w', r2) = CopyN w r1 n" for ok w' r2 w r1 n
    using that by (simp add: CopyN_def split: prod.splits)
  show ?thesis
  proof (relation "measure (\<lambda>(r, w). length r)", goal_cases)
    case 1
    show ?case by simp
  next
    case 2
    then show ?case by (auto dest!: p c)
  qed
qed

text \<open>Lines 158-233: from the signature check to the copy of the audio frames.\<close>

definition streamTrack :: "bytes \<Rightarrow> world \<Rightarrow> world" where
  "streamTrack b w =
     (case ReadFull b 4 of
        Inl e \<Rightarrow> fail500 ''Unable to decode track'' w
      | Inr (fileMagic, r0) \<Rightarrow>
          if fileMagic \<noteq> magic then fail500 ''Unable to decode track'' w
          else
            let (ok, w1) = Write magic w;
                w2 = (if ok then w1 else logf (Msg ''Failed to write response'') w1);
                (ok1, w3, r1) = CopyN w2 r0 0x26
            in if \<not> ok1 then logf (Msg ''Unable to decode track'') w3
               else (case walkBlocks r1 w3 of
                       (None, w4) \<Rightarrow> w4
                     | (Some r2, w4) \<Rightarrow>
                         let (ok2, w5) = Copy w4 r2
                         in if ok2 then w5 else logf (Msg ''Unable to decode track'') w5))"

text \<open>
  Lines 128-156. After a failed fetch (an error, or a status other than 200) the handler
  sends the 500 answer and logs, and then goes on: there is no \<^verbatim>\<open>return\<close> in that branch.
  With no response at all, \<^verbatim>\<open>resp.Body\<close> is a nil pointer dereference.
\<close>

definition trackHandler_part002 :: "env \<Rightarrow> request \<Rightarrow> world \<Rightarrow> world" where
  "trackHandler_part002 e r w =
     (if Method r \<noteq> ''GET'' then Error ''Method Not Allowed'' 405 w
      else let match = trackRe (Path r) in
        if length match < 2 then NotFound w
        else case loadTrackInfo e (match ! 1) w of
               (Inl (TrackNotFoundError i), w1) \<Rightarrow> NotFound w1
             | (Inl err, w1) \<Rightarrow> fail500 ''Unable to load track information'' w1
             | (Inr data, w1) \<Rightarrow>
                 let w2 = effect (MossGet (Holding_ID data) (File_Path data)) w1;
                     resp = mossGet e (Holding_ID data) (File_Path data);
                     w3 = (if failed resp then fail500 ''Unable to access track'' w2 else w2)
                 in (case resp of
                       TransportError \<Rightarrow> w3\<lparr>panicked := True\<rparr>
                     | Response code b \<Rightarrow> streamTrack b w3))"

section \<open>The handler of src/main.go (lines 102-170)\<close>

definition metaflacArgs :: "string list" where
  "metaflacArgs = [''--remove-tag=ARTIST'', ''--remove-tag=TITLE'', ''--remove-tag=ALBUM'',
     ''--remove-tag=LABEL'', ''--import-tags-from=-'']"

text \<open>The standard input given to \<^verbatim>\<open>metaflac\<close> (line 154).\<close>

definition metaflacStdin :: "TrackJSON \<Rightarrow> string" where
  "metaflacStdin track =
     ''ARTIST='' @ Artist track @ ''\<newline>TITLE='' @ Title track @
     ''\<newline>ALBUM=dmca test\<newline>LABEL=dmca test\<newline>''"

text \<open>
  \<^verbatim>\<open>http.ServeContent(w, r, name, time.Now(), f)\<close> (line 169), for the GET requests that
  reach it. The library looks at five header fields of the request: \<^verbatim>\<open>If-Match\<close>,
  \<^verbatim>\<open>If-Unmodified-Since\<close>, \<^verbatim>\<open>If-None-Match\<close> and \<^verbatim>\<open>If-Modified-Since\<close> (a request that
  fails its condition is answered 412 or 304 with no body) and \<^verbatim>\<open>Range\<close> (206 with the
  part asked for, or 416; \<^verbatim>\<open>If-Range\<close> is read only beside \<^verbatim>\<open>Range\<close>). A request with none
  of the five is answered 200 with the whole content; for the others the answer is the
  one of the environment. The content is a regular file just opened, whose size the
  library gets by seeking.
\<close>

definition conditionalHeaders :: "string list" where
  "conditionalHeaders =
     [''Range'', ''If-Match'', ''If-None-Match'', ''If-Modified-Since'',
      ''If-Unmodified-Since'']"

definition conditional :: "request \<Rightarrow> bool" where
  "conditional r = list_ex (\<lambda>k. k \<in> set conditionalHeaders) (map fst (Header r))"

definition servedContent :: "env \<Rightarrow> request \<Rightarrow> bytes \<Rightarrow> nat \<times> bytes" where
  "servedContent e r f = (if conditional r then serveConditional e r f else (200, f))"

definition ServeContent :: "env \<Rightarrow> request \<Rightarrow> bytes \<Rightarrow> world \<Rightarrow> world" where
  "ServeContent e r f w =
     snd (Copy (WriteHeader (fst (servedContent e r f)) w) (snd (servedContent e r f)))"

text \<open>
  Lines 133-170, once the object store has answered 200: the temporary file, the copy of
  the whole body into it, \<^verbatim>\<open>metaflac\<close> on the file, and the file served.
  \<^verbatim>\<open>defer os.Remove(tmpf.Name())\<close> runs on every way out after the file exists.
  The effect \<open>TempWrite stored\<close> is the call \<^verbatim>\<open>io.Copy(tmpf, resp.Body)\<close> with the bytes that
  it leaves in the file: the whole body, or as much of it as the disk takes.
\<close>

definition serveTagged :: "env \<Rightarrow> request \<Rightarrow> TrackJSON \<Rightarrow> bytes \<Rightarrow> world \<Rightarrow> world" where
  "serveTagged e r track b w =
     (if tempFileFails e then fail500 ''Failed to create temporary file'' w
      else effect RemoveTemp
        (let w1 = effect TempFile w;
             stored = (case diskRoom e of None \<Rightarrow> b | Some n \<Rightarrow> take n b);
             w2 = effect (TempWrite stored) w1
         in if stored \<noteq> b then fail500 ''Failed to download track'' w2
            else let w3 = effect TempClose w2
              in if closeFails e then fail500 ''Failed to close temporary file'' w3
                 else let w4 = effect (Metaflac metaflacArgs (metaflacStdin track)) w3
                   in case metaflac e metaflacArgs (metaflacStdin track) b of
                        None \<Rightarrow> fail500 ''Failed to modify track metadata'' w4
                      | Some f \<Rightarrow>
                          if openFails e then fail500 ''Failed to load track'' w4
                          else ServeContent e r f (effect OpenTemp w4)))"

text \<open>
  Lines 102-131. A failed fetch (an error, or a status other than 200) ends the request
  here: after the test \<open>failed\<close> the answer is a response, and the first branch of the
  \<open>case\<close> is never taken.
\<close>

definition trackHandler :: "env \<Rightarrow> request \<Rightarrow> world \<Rightarrow> world" where
  "trackHandler e r w =
     (if Method r \<noteq> ''GET'' then Error ''Method Not Allowed'' 405 w
      else let match = trackRe (Path r) in
        if length match < 2 then NotFound w
        else case loadTrackInfo e (match ! 1) w of
               (Inl (TrackNotFoundError i), w1) \<Rightarrow> NotFound w1
             | (Inl err, w1) \<Rightarrow> fail500 ''Failed to load track information'' w1
             | (Inr track, w1) \<Rightarrow>
                 let w2 = effect (MossGet (Holding_ID track) (File_Path track)) w1;
                     resp = mossGet e (Holding_ID track) (File_Path track)
                 in if failed resp then fail500 ''Failed to access track'' w2
                    else (case resp of
                            TransportError \<Rightarrow> w2
                          | Response code b \<Rightarrow> serveTagged e r track b w2))"

section \<open>Example inputs\<close>

text \<open>
  A track of the catalog, a request for it, and a FLAC file with no VORBIS_COMMENT block:
  the signature, STREAMINFO (header \<open>00 00 00 22\<close> and 34 bytes), a PADDING block of two
  bytes that is the last metadata block (header \<open>81 00 00 02\<close>), and four bytes of audio
  frames. \<open>exampleJSON\<close> is the track as a JSON document. In \<open>exampleEnv\<close> the catalog and
  the object store give the two answers passed in, \<open>exampleJSON\<close> decodes to the track and
  no other body decodes (an empty body gives \<^verbatim>\<open>io.EOF\<close>), nothing else fails, and \<^verbatim>\<open>metaflac\<close>
  leaves the file as it is. The one request of the examples that carries a range asks for
  \<^verbatim>\<open>bytes=0-3\<close> of a file of more than four bytes: \<open>firstFour\<close> is the answer of
  \<^verbatim>\<open>http.ServeContent\<close> to it, 206 and the first four bytes.
\<close>

definition exampleTrack :: TrackJSON where
  "exampleTrack =
     \<lparr>Added_At = ''2017-01-01'', Added_By = ''dj'', Artist = ''A'', Disc_Num = 1,
      File_Path = ''a/b.flac'', Has_FCC = ''0'', Holding_ID = ''h1'',
      ID = ''01234567-89ab-cdef-0123-456789abcdef'', Recording_MBID = ''r'', Title = ''T'',
      Track_MBID = ''t'', Track_Num = 1\<rparr>"

definition examplePath :: string where
  "examplePath = ''/track/01234567-89ab-cdef-0123-456789abcdef.flac''"

definition exampleRequest :: request where
  "exampleRequest = \<lparr>Method = ''GET'', Path = examplePath, Header = []\<rparr>"

definition rangeRequest :: request where
  "rangeRequest =
     \<lparr>Method = ''GET'', Path = examplePath, Header = [(''Range'', ''bytes=0-3'')]\<rparr>"

definition firstFour :: "request \<Rightarrow> bytes \<Rightarrow> nat \<times> bytes" where
  "firstFour r f = (206, take 4 f)"

definition quoted :: "string \<Rightarrow> string" where
  "quoted s = CHR 0x22 # s @ [CHR 0x22]"

definition exampleJSON :: bytes where
  "exampleJSON = bytes_of
     (''{'' @ quoted ''Added_At'' @ '':'' @ quoted ''2017-01-01'' @ '','' @
      quoted ''Added_By'' @ '':'' @ quoted ''dj'' @ '','' @
      quoted ''Artist'' @ '':'' @ quoted ''A'' @ '','' @
      quoted ''Disc_Num'' @ '':1,'' @
      quoted ''File_Path'' @ '':'' @ quoted ''a/b.flac'' @ '','' @
      quoted ''Has_FCC'' @ '':'' @ quoted ''0'' @ '','' @
      quoted ''Holding_ID'' @ '':'' @ quoted ''h1'' @ '','' @
      quoted ''ID'' @ '':'' @ quoted ''01234567-89ab-cdef-0123-456789abcdef'' @ '','' @
      quoted ''Recording_MBID'' @ '':'' @ quoted ''r'' @ '','' @
      quoted ''Title'' @ '':'' @ quoted ''T'' @ '','' @
      quoted ''Track_MBID'' @ '':'' @ quoted ''t'' @ '','' @
      quoted ''Track_Num'' @ '':1}'')"

definition exampleFlac :: bytes where
  "exampleFlac =
     bytes_of ''fLaC'' @ [0, 0, 0, 0x22] @ replicate 34 0 @ [0x81, 0, 0, 2, 0xAA, 0xBB] @
     [0xFF, 0xF8, 1, 2]"

definition exampleEnv :: "fetch \<Rightarrow> fetch \<Rightarrow> env" where
  "exampleEnv catalog store =
     \<lparr>newRequestFails = False, loginFails = False, impalaGet = (\<lambda>i. catalog),
      jsonDecode = (\<lambda>b. if b = exampleJSON then Some exampleTrack else None),
      mossGet = (\<lambda>h p. store),
      tempFileFails = False, diskRoom = None, closeFails = False,
      metaflac = (\<lambda>args stdin f. Some f), openFails = False,
      serveConditional = firstFour\<rparr>"

definition exampleServing :: env where
  "exampleServing = exampleEnv (Response 200 exampleJSON) (Response 200 exampleFlac)"

section \<open>The block header codec: bits and bytes\<close>

lemma bits_value_horner: "bits_value bs = horner_sum of_bool 2 (rev bs)"
  unfolding bits_value_def
  by (induction bs rule: rev_induct) simp_all

lemma byte_bits_rev: "rev (byte_bits b) = map (bit b) [0..<8]"
  by (simp add: byte_bits_def upt_rec eval_nat_numeral)

lemma length_byte_bits: "length (byte_bits b) = 8"
  by (simp add: byte_bits_def)

lemma bits_value_byte: "bits_value (byte_bits b) = ucast b"
proof -
  have "map (bit b) [0..<8] = map (bit (ucast b :: 64 word)) [0..<8]"
    by (simp add: bit_simps)
  then have "bits_value (byte_bits b) =
      horner_sum of_bool 2 (map (bit (ucast b :: 64 word)) [0..<8])"
    by (simp only: bits_value_horner byte_bits_rev)
  also have "\<dots> = take_bit 8 (ucast b :: 64 word)"
    by (rule horner_sum_bit_eq_take_bit)
  also have "\<dots> = ucast b"
    by (rule bit_word_eqI) (auto simp add: bit_simps dest: bit_imp_le_length)
  finally show ?thesis .
qed

lemma bits_value_append:
  "bits_value (xs @ ys) = bits_value xs * 2 ^ length ys + bits_value ys"
  by (simp add: bits_value_horner horner_sum_append mult.commute)

lemma bits_value_flag: "bits_value [x] = of_bool x"
  by (simp add: bits_value_def)

lemma bits_value_low7:
  "bits_value (map (bit (b::byte)) [6, 5, 4, 3, 2, 1, 0]) = ucast (take_bit 7 b)"
proof -
  have "rev (map (bit b) [6, 5, 4, 3, 2, 1, 0]) = map (bit (ucast b :: 64 word)) [0..<7]"
    by (simp add: bit_simps upt_rec eval_nat_numeral)
  then have "bits_value (map (bit b) [6, 5, 4, 3, 2, 1, 0]) =
      horner_sum of_bool 2 (map (bit (ucast b :: 64 word)) [0..<7])"
    by (simp only: bits_value_horner)
  also have "\<dots> = take_bit 7 (ucast b :: 64 word)"
    by (rule horner_sum_bit_eq_take_bit)
  also have "\<dots> = ucast (take_bit 7 b)"
    by (rule bit_word_eqI) (auto simp add: bit_simps)
  finally show ?thesis .
qed

lemma length_header_bits:
  assumes "length r < 4"
  shows "length (concat (map byte_bits (take 32 r))) < 32"
proof -
  have "length (concat (map byte_bits xs)) = 8 * length xs" for xs
    by (induction xs) (simp_all add: length_byte_bits)
  with assms show ?thesis by simp
qed

lemma ReadFields_too_short:
  "length bs < 32 \<Longrightarrow> ReadFields [1, 7, 24] bs = Inl ReadError"
  by (auto split: sum.splits)

lemma parseBlockHeader_short: "length r < 4 \<Longrightarrow> parseBlockHeader r = Inl ReadError"
  by (simp only: parseBlockHeader_def ReadFields_too_short [OF length_header_bits] sum.case)

lemma ReadFields_header:
  "length ys = 7 \<Longrightarrow> length zs = 24 \<Longrightarrow>
   ReadFields [1, 7, 24] (x # ys @ zs @ rest) =
     Inr [bits_value [x], bits_value ys, bits_value zs]"
  by simp

lemma length24_value:
  "sint (bits_value (byte_bits b1 @ byte_bits b2 @ byte_bits b3)) =
     uint b1 * 65536 + uint b2 * 256 + uint b3"
proof -
  let ?k = "uint b1 * 65536 + uint b2 * 256 + uint b3"
  have b: "0 \<le> ?k" "?k < 2 ^ 24"
    using uint_lt2p [of b1] uint_lt2p [of b2] uint_lt2p [of b3]
    by simp_all
  have "bits_value (byte_bits b1 @ byte_bits b2 @ byte_bits b3) =
      (ucast b1 * 65536 + ucast b2 * 256 + ucast b3 :: 64 word)"
    by (simp add: bits_value_append bits_value_byte length_byte_bits algebra_simps)
  also have "\<dots> = word_of_int ?k"
    by simp
  finally have "sint (bits_value (byte_bits b1 @ byte_bits b2 @ byte_bits b3)) =
      signed_take_bit 63 ?k"
    by (simp only: sint_sbintrunc') simp
  also have "\<dots> = ?k"
  proof (rule signed_take_bit_int_eq_self)
    show "- (2 ^ 63) \<le> ?k" by (rule order_trans [OF _ b(1)]) simp
    show "?k < 2 ^ 63" using b(2) by simp
  qed
  finally show ?thesis .
qed

text \<open>
  What \<open>parseBlockHeader\<close> reads from four bytes: the top bit of the first byte, its low
  seven bits, and the next three bytes as a big-endian number.
\<close>

lemma parseBlockHeader_bytes:
  "parseBlockHeader (b0 # b1 # b2 # b3 # r) =
     Inr (\<lparr>LastBlock = bit b0 7, Type = take_bit 7 b0,
           Length = uint b1 * 65536 + uint b2 * 256 + uint b3\<rparr>, r)"
proof -
  let ?ys = "map (bit b0) [6, 5, 4, 3, 2, 1, 0]"
  let ?zs = "byte_bits b1 @ byte_bits b2 @ byte_bits b3"
  let ?rest = "concat (map byte_bits (take 28 r))"
  have bits: "concat (map byte_bits (take 32 (b0 # b1 # b2 # b3 # r))) =
      bit b0 7 # ?ys @ ?zs @ ?rest"
    by (simp add: byte_bits_def)
  have fields: "ReadFields [1, 7, 24] (bit b0 7 # ?ys @ ?zs @ ?rest) =
      Inr [bits_value [bit b0 7], bits_value ?ys, bits_value ?zs]"
    by (rule ReadFields_header) (simp_all add: length_byte_bits)
  have ty: "(ucast (ucast (take_bit 7 b0) :: 64 word) :: byte) = take_bit 7 b0"
    by (rule bit_word_eqI) (auto simp add: bit_simps)
  have "parseBlockHeader (b0 # b1 # b2 # b3 # r) =
      Inr (\<lparr>LastBlock = (bits_value [bit b0 7] = 1), Type = ucast (bits_value ?ys),
            Length = sint (bits_value ?zs)\<rparr>, r)"
    unfolding parseBlockHeader_def bits fields by simp
  then show ?thesis
    by (simp only: bits_value_low7 length24_value bits_value_flag ty) simp
qed

lemma Marshal_length: "length (Marshal h) = 4"
  by (simp add: Marshal_def Let_def)

lemma flag_bit_restore:
  "(if bit b 7 then take_bit 7 b XOR 0x80 else take_bit 7 b) = (b::byte)"
  by (rule bit_word_eqI) (auto simp add: bit_simps less_Suc_eq eval_nat_numeral)

lemma byte_of_uint: "(word_of_int (uint (b::byte) + 256 * k) :: byte) = b"
proof -
  have "(word_of_int (uint b + 256 * k) :: byte) = word_of_int (uint b)"
    by (simp only: word_of_int_eq_iff take_bit_eq_mod) simp
  then show ?thesis by (simp only: word_of_int_uint)
qed

lemma div_base: "0 \<le> x \<Longrightarrow> x < n \<Longrightarrow> (a * n + x) div n = (a::int)"
  by (simp add: div_pos_pos_trivial)

lemma Marshal_parse_bytes:
  "Marshal \<lparr>LastBlock = bit b0 7, Type = take_bit 7 b0,
            Length = uint b1 * 65536 + uint b2 * 256 + uint b3\<rparr> = [b0, b1, b2, b3]"
proof -
  let ?L = "uint b1 * 65536 + uint b2 * 256 + uint b3"
  have r3: "0 \<le> uint b3" "uint b3 < 256" "0 \<le> uint b2" "uint b2 < 256"
    using uint_lt2p [of b3] uint_lt2p [of b2] by simp_all
  have "(uint b1 * 65536 + (uint b2 * 256 + uint b3)) div 65536 = uint b1"
    using r3 by (intro div_base) simp_all
  then have d16: "drop_bit 16 ?L = uint b1"
    by (simp add: drop_bit_eq_div add.assoc)
  have "((uint b2 + 256 * uint b1) * 256 + uint b3) div 256 = uint b2 + 256 * uint b1"
    using r3 by (intro div_base) simp_all
  then have d8: "drop_bit 8 ?L = uint b2 + 256 * uint b1"
    by (simp add: drop_bit_eq_div algebra_simps)
  have l: "?L = uint b3 + 256 * (uint b2 + 256 * uint b1)"
    by simp
  have "(word_of_int (drop_bit 16 ?L) :: byte) = b1"
    by (simp only: d16 word_of_int_uint)
  moreover have "(word_of_int (drop_bit 8 ?L) :: byte) = b2"
    by (simp only: d8 byte_of_uint)
  moreover have "(word_of_int ?L :: byte) = b3"
    by (simp only: l byte_of_uint)
  ultimately show ?thesis
    using flag_bit_restore [of b0] by (simp add: Marshal_def Let_def split: if_splits)
qed

lemma int24_split:
  assumes "0 \<le> (l::int)" "l < 16777216"
  shows "(l div 65536) mod 256 * 65536 + (l div 256) mod 256 * 256 + l mod 256 = l"
proof -
  define q where "q = l div 256"
  define r where "r = l mod 256"
  define q2 where "q2 = q div 256"
  define r2 where "r2 = q mod 256"
  have h: "l div 65536 = q2"
    by (simp add: q2_def q_def zdiv_zmult2_eq)
  have "l div 65536 < 256" using assms by simp
  moreover have "0 \<le> l div 65536" using assms by simp
  ultimately have s: "q2 mod 256 = q2"
    unfolding h by simp
  have m1: "l = 256 * q + r" by (simp add: q_def r_def)
  have m2: "q = 256 * q2 + r2" by (simp add: q2_def r2_def)
  have "q2 * 65536 + r2 * 256 + r = l"
    by (simp add: m1 m2)
  then show ?thesis
    by (simp only: h s flip: q_def r_def r2_def)
qed

lemma type7_bits:
  assumes "t \<le> (127::byte)"
  shows "take_bit 7 t = t" and "\<not> bit t 7"
proof -
  from assms have "uint t < 2 ^ 7" by (simp add: word_le_def)
  then have "take_bit 7 (uint t) = uint t"
    by (intro take_bit_int_eq_self) simp_all
  then show t: "take_bit 7 t = t"
    by (intro word_uint_eqI) (simp only: unsigned_take_bit_eq)
  have "\<not> bit (take_bit 7 t) 7" by (simp add: bit_simps)
  with t show "\<not> bit t 7" by simp
qed

lemma flag_bit_set:
  assumes "t \<le> (127::byte)"
  shows "bit (t XOR 0x80) 7" and "take_bit 7 (t XOR 0x80) = t"
proof -
  note t = type7_bits [OF assms]
  show "bit (t XOR 0x80) 7" using t(2) by (simp add: bit_simps)
  have "take_bit 7 (t XOR 0x80) = take_bit 7 t"
    by (rule bit_word_eqI) (auto simp add: bit_simps)
  with t(1) show "take_bit 7 (t XOR 0x80) = t" by simp
qed

text \<open>Decoding after encoding, for a type of at most seven bits and a length of at most 24.\<close>

lemma parse_Marshal:
  assumes "Type h \<le> 127" "0 \<le> Length h" "Length h \<le> 16777215"
  shows "parseBlockHeader (Marshal h @ r) = Inr (h, r)"
proof -
  let ?l = "Length h"
  let ?c0 = "if LastBlock h then Type h XOR 0x80 else Type h"
  have m: "Marshal h @ r = ?c0 # word_of_int (drop_bit 16 ?l) # word_of_int (drop_bit 8 ?l) #
      word_of_int ?l # r"
    by (simp add: Marshal_def Let_def)
  have f: "bit ?c0 7 = LastBlock h" "take_bit 7 ?c0 = Type h"
    using type7_bits [OF assms(1)] flag_bit_set [OF assms(1)] by simp_all
  have "uint (word_of_int (drop_bit 16 ?l) :: byte) * 65536 +
        uint (word_of_int (drop_bit 8 ?l) :: byte) * 256 + uint (word_of_int ?l :: byte) =
        (?l div 65536) mod 256 * 65536 + (?l div 256) mod 256 * 256 + ?l mod 256"
    by (simp add: uint_word_of_int drop_bit_eq_div)
  also have "\<dots> = ?l"
    using assms(2,3) by (intro int24_split) simp_all
  finally have l: "uint (word_of_int (drop_bit 16 ?l) :: byte) * 65536 +
        uint (word_of_int (drop_bit 8 ?l) :: byte) * 256 + uint (word_of_int ?l :: byte) = ?l" .
  show ?thesis
    unfolding m parseBlockHeader_bytes f l by simp
qed

lemma take7_le: "take_bit 7 (b::byte) \<le> 127"
proof -
  have "uint (take_bit 7 b) < 2 ^ 7"
    by (simp only: unsigned_take_bit_eq take_bit_int_less_exp)
  then show ?thesis by (simp add: word_le_def)
qed

lemma four_bytes:
  assumes "4 \<le> length r"
  obtains b0 b1 b2 b3 r' where "r = b0 # b1 # b2 # b3 # r'"
proof -
  from assms obtain b0 r0 where "r = b0 # r0" "3 \<le> length r0" by (cases r) auto
  moreover then obtain b1 r1 where "r0 = b1 # r1" "2 \<le> length r1" by (cases r0) auto
  moreover then obtain b2 r2 where "r1 = b2 # r2" "1 \<le> length r2" by (cases r1) auto
  moreover then obtain b3 r3 where "r2 = b3 # r3" by (cases r2) auto
  ultimately show ?thesis using that by simp
qed

text \<open>Encoding after decoding, and the ranges of what decoding returns.\<close>

lemma parse_inverts:
  assumes "parseBlockHeader r = Inr (h, r')"
  shows "Marshal h = take 4 r" "r' = drop 4 r" "4 \<le> length r"
        "Type h \<le> 127" "0 \<le> Length h" "Length h \<le> 16777215"
proof -
  show len: "4 \<le> length r"
    using assms parseBlockHeader_short [of r] by (cases "length r < 4") simp_all
  then obtain b0 b1 b2 b3 r0 where r: "r = b0 # b1 # b2 # b3 # r0"
    by (rule four_bytes)
  from assms have h: "h = \<lparr>LastBlock = bit b0 7, Type = take_bit 7 b0,
      Length = uint b1 * 65536 + uint b2 * 256 + uint b3\<rparr>" and r': "r' = r0"
    unfolding r parseBlockHeader_bytes by simp_all
  show "Marshal h = take 4 r"
    unfolding h Marshal_parse_bytes r by simp
  show "r' = drop 4 r" by (simp add: r r')
  show "Type h \<le> 127" by (simp add: h take7_le)
  show "0 \<le> Length h" by (simp add: h)
  show "Length h \<le> 16777215"
    using uint_lt2p [of b1] uint_lt2p [of b2] uint_lt2p [of b3] by (simp add: h)
qed

section \<open>The response writer and the walk over the metadata blocks\<close>

lemma logf_fields:
  "body (logf l w) = body w" "status (logf l w) = status w" "room (logf l w) = room w"
  "effects (logf l w) = effects w" "panicked (logf l w) = panicked w"
  "logs (logf l w) = logs w @ [l]"
  by (simp_all add: logf_def)

lemma effect_fields:
  "body (effect x w) = body w" "status (effect x w) = status w" "room (effect x w) = room w"
  "effects (effect x w) = effects w @ [x]" "panicked (effect x w) = panicked w"
  "logs (effect x w) = logs w"
  by (simp_all add: effect_def)

lemma WriteHeader_fields:
  "body (WriteHeader c w) = body w" "room (WriteHeader c w) = room w"
  "effects (WriteHeader c w) = effects w" "panicked (WriteHeader c w) = panicked w"
  "logs (WriteHeader c w) = logs w"
  "status (WriteHeader c w) = Some (case status w of None \<Rightarrow> c | Some c' \<Rightarrow> c')"
  by (auto simp add: WriteHeader_def)

lemma Write_fields:
  "body (snd (Write bs w)) = body w @ delivered (room w) bs"
  "effects (snd (Write bs w)) = effects w" "panicked (snd (Write bs w)) = panicked w"
  "logs (snd (Write bs w)) = logs w"
  "status (snd (Write bs w)) = Some (case status w of None \<Rightarrow> 200 | Some c' \<Rightarrow> c')"
  by (auto simp add: Write_def Let_def WriteHeader_fields delivered_def split: option.splits)

lemma Write_ok:
  assumes "Write bs w = (True, w')"
  shows "body w' = body w @ bs"
  using assms
  by (auto simp add: Write_def Let_def WriteHeader_fields split: option.splits if_splits)

lemma Copy_ok:
  assumes "Copy w r = (True, w')"
  shows "body w' = body w @ r"
  using assms Write_ok [of r w w'] by (auto simp add: Copy_def split: if_splits)

lemma CopyN_ok:
  assumes "CopyN w r n = (True, w', r')"
  shows "body w' = body w @ take n r" "r' = drop n r" "n \<le> length r"
  using assms Copy_ok [of w "take n r" w']
  by (auto simp add: CopyN_def split: prod.splits)

declare walkBlocks.simps [simp del]

lemma walkBlocks_Inl:
  "parseBlockHeader r = Inl e \<Longrightarrow>
   walkBlocks r w = (None, logf (Msg ''Failed to parse block header'') w)"
  by (subst walkBlocks.simps) simp

lemma walkBlocks_Inr:
  "parseBlockHeader r = Inr (block, r1) \<Longrightarrow>
   walkBlocks r w =
     (let w1 = logf (Block (LastBlock block) (Type block) (Length block)) w;
          (ok, w2) = Write (Marshal block) w1
      in if \<not> ok then (None, logf (Msg ''Failed to write response'') w2)
         else let (ok', w3, r2) = CopyN w2 r1 (nat (Length block))
           in if \<not> ok' then (None, logf (Msg ''Unable to decode track'') w3)
              else if LastBlock block then (Some r2, w3)
              else walkBlocks r2 w3)"
  by (subst walkBlocks.simps) simp

lemma walkBlocks_write_fails:
  assumes "parseBlockHeader r = Inr (h, r1)"
    and "Write (Marshal h) (logf (Block (LastBlock h) (Type h) (Length h)) w) = (False, w2)"
  shows "walkBlocks r w = (None, logf (Msg ''Failed to write response'') w2)"
  using assms by (simp add: walkBlocks_Inr)

lemma walkBlocks_copy_fails:
  assumes "parseBlockHeader r = Inr (h, r1)"
    and "Write (Marshal h) (logf (Block (LastBlock h) (Type h) (Length h)) w) = (True, w2)"
    and "CopyN w2 r1 (nat (Length h)) = (False, w3, r2)"
  shows "walkBlocks r w = (None, logf (Msg ''Unable to decode track'') w3)"
  using assms by (simp add: walkBlocks_Inr)

lemma walkBlocks_step:
  assumes "parseBlockHeader r = Inr (h, r1)"
    and "Write (Marshal h) (logf (Block (LastBlock h) (Type h) (Length h)) w) = (True, w2)"
    and "CopyN w2 r1 (nat (Length h)) = (True, w3, r2)"
  shows "walkBlocks r w = (if LastBlock h then (Some r2, w3) else walkBlocks r2 w3)"
  using assms by (simp add: walkBlocks_Inr)

lemma walk_passthrough:
  "walkBlocks r w = (Some rest, w') \<Longrightarrow>
   \<exists>k. k \<le> length r \<and> rest = drop k r \<and> body w' = body w @ take k r"
proof (induction r arbitrary: w rule: length_induct)
  case (1 r)
  show ?case
  proof (cases "parseBlockHeader r")
    case (Inl e)
    with 1(2) show ?thesis by (simp add: walkBlocks_Inl)
  next
    case (Inr p)
    obtain h r1 where p: "p = (h, r1)" by (cases p)
    note ph = Inr [unfolded p]
    note inv = parse_inverts [OF ph]
    let ?w1 = "logf (Block (LastBlock h) (Type h) (Length h)) w"
    let ?n = "nat (Length h)"
    obtain ok w2 where wr: "Write (Marshal h) ?w1 = (ok, w2)" by (cases "Write (Marshal h) ?w1")
    have ok: "ok"
    proof (rule ccontr)
      assume "\<not> ok"
      with wr have "Write (Marshal h) ?w1 = (False, w2)" by simp
      from walkBlocks_write_fails [OF ph this] 1(2) show False by simp
    qed
    with wr have wr: "Write (Marshal h) ?w1 = (True, w2)" by simp
    obtain ok' w3 r2 where cp: "CopyN w2 r1 ?n = (ok', w3, r2)" by (cases "CopyN w2 r1 ?n")
    have ok': "ok'"
    proof (rule ccontr)
      assume "\<not> ok'"
      with cp have "CopyN w2 r1 ?n = (False, w3, r2)" by simp
      from walkBlocks_copy_fails [OF ph wr this] 1(2) show False by simp
    qed
    with cp have cp: "CopyN w2 r1 ?n = (True, w3, r2)" by simp
    note step = walkBlocks_step [OF ph wr cp]
    from Write_ok [OF wr]
    have b2: "body w2 = body w @ take 4 r" by (simp add: logf_fields inv(1))
    note c = CopyN_ok [OF cp]
    have b3: "body w3 = body w @ take (4 + ?n) r"
      by (simp add: c(1) b2 inv(2) take_add)
    have r2: "r2 = drop (4 + ?n) r"
      by (simp add: c(2) inv(2) add.commute)
    have len: "4 + ?n \<le> length r"
      using c(3) inv(2,3) by simp
    show ?thesis
    proof (cases "LastBlock h")
      case True
      with 1(2) step have "rest = r2" "w' = w3"
        by simp_all
      with b3 r2 len show ?thesis by blast
    next
      case False
      with 1(2) step have rec: "walkBlocks r2 w3 = (Some rest, w')"
        by simp
      have "length r2 < length r" using len by (simp add: r2)
      with 1(1) rec obtain k where k: "k \<le> length r2" "rest = drop k r2"
          "body w' = body w3 @ take k r2"
        by blast
      have "4 + ?n + k \<le> length r" using k(1) len by (simp add: r2)
      moreover have "rest = drop (4 + ?n + k) r"
        by (simp add: k(2) r2 add.commute)
      moreover have "body w' = body w @ take (4 + ?n + k) r"
        by (simp add: k(3) b3 r2 take_add)
      ultimately show ?thesis by blast
    qed
  qed
qed


lemma walkBlocks_short:
  "length r < 4 \<Longrightarrow> walkBlocks r w = (None, logf (Msg ''Failed to parse block header'') w)"
  by (simp add: walkBlocks_Inl [OF parseBlockHeader_short])

lemma walkBlocks_bytes:
  "walkBlocks (b0 # b1 # b2 # b3 # r1) w =
     (case Write [b0, b1, b2, b3]
             (logf (Block (bit b0 7) (take_bit 7 b0)
                (uint b1 * 65536 + uint b2 * 256 + uint b3)) w) of
        (ok, w2) \<Rightarrow>
          if \<not> ok then (None, logf (Msg ''Failed to write response'') w2)
          else (case CopyN w2 r1 (nat (uint b1 * 65536 + uint b2 * 256 + uint b3)) of
                  (ok', w3, r2) \<Rightarrow>
                    if \<not> ok' then (None, logf (Msg ''Unable to decode track'') w3)
                    else if bit b0 7 then (Some r2, w3)
                    else walkBlocks r2 w3))"
  by (simp add: walkBlocks_Inr [OF parseBlockHeader_bytes] Marshal_parse_bytes Let_def
      split: prod.splits)

lemma Write_extends: "\<exists>x. body (snd (Write bs w)) = body w @ x"
  by (simp add: Write_fields)

lemma Copy_extends: "\<exists>x. body (snd (Copy w r)) = body w @ x"
  using Write_extends [of r w] by (simp add: Copy_def)

lemma Write_prefix: "\<exists>k. body (snd (Write bs w)) = body w @ take k bs"
proof (cases "room w")
  case None
  then have "body (snd (Write bs w)) = body w @ take (length bs) bs"
    by (simp add: Write_fields delivered_def)
  then show ?thesis ..
next
  case (Some n)
  then have "body (snd (Write bs w)) = body w @ take n bs"
    by (simp add: Write_fields delivered_def)
  then show ?thesis ..
qed

lemma CopyN_prefix: "\<exists>k. body (fst (snd (CopyN w r n))) = body w @ take k r"
proof -
  from Write_prefix [of "take n r" w] obtain k where
    "body (snd (Write (take n r) w)) = body w @ take (min k n) r"
    by (auto simp add: take_take)
  moreover have "body w = body w @ take 0 r" by simp
  ultimately show ?thesis
    by (cases "Copy w (take n r)") (auto simp add: CopyN_def Copy_def split: if_splits)
qed

lemma walk_prefix: "\<exists>k. body (snd (walkBlocks r w)) = body w @ take k r"
proof (induction r arbitrary: w rule: length_induct)
  case (1 r)
  show ?case
  proof (cases "parseBlockHeader r")
    case (Inl e)
    then have "body (snd (walkBlocks r w)) = body w @ take 0 r"
      by (simp add: walkBlocks_Inl logf_fields)
    then show ?thesis ..
  next
    case (Inr p)
    obtain h r1 where p: "p = (h, r1)" by (cases p)
    note ph = Inr [unfolded p]
    note inv = parse_inverts [OF ph]
    let ?w1 = "logf (Block (LastBlock h) (Type h) (Length h)) w"
    let ?n = "nat (Length h)"
    obtain ok w2 where wr: "Write (Marshal h) ?w1 = (ok, w2)" by (cases "Write (Marshal h) ?w1")
    obtain ok' w3 r2 where cp: "CopyN w2 r1 ?n = (ok', w3, r2)" by (cases "CopyN w2 r1 ?n")
    show ?thesis
    proof (cases ok)
      case False
      with wr have f: "Write (Marshal h) ?w1 = (False, w2)" by simp
      from Write_prefix [of "Marshal h" ?w1] wr obtain k where
        "body w2 = body w @ take (min k 4) r"
        by (auto simp add: logf_fields inv(1) take_take)
      with walkBlocks_write_fails [OF ph f]
      have "body (snd (walkBlocks r w)) = body w @ take (min k 4) r"
        by (simp add: logf_fields)
      then show ?thesis ..
    next
      case True
      with wr have wr': "Write (Marshal h) ?w1 = (True, w2)" by simp
      from Write_ok [OF wr'] have b2: "body w2 = body w @ take 4 r"
        by (simp add: logf_fields inv(1))
      show ?thesis
      proof (cases ok')
        case False
        with cp have f: "CopyN w2 r1 ?n = (False, w3, r2)" by simp
        from CopyN_prefix [of w2 r1 ?n] cp obtain k where "body w3 = body w2 @ take k r1"
          by auto
        then have "body w3 = body w @ take (4 + k) r"
          by (simp add: b2 inv(2) take_add)
        with walkBlocks_copy_fails [OF ph wr' f]
        have "body (snd (walkBlocks r w)) = body w @ take (4 + k) r"
          by (simp add: logf_fields)
        then show ?thesis ..
      next
        case True
        with cp have cp': "CopyN w2 r1 ?n = (True, w3, r2)" by simp
        note step = walkBlocks_step [OF ph wr' cp']
        note c = CopyN_ok [OF cp']
        have b3: "body w3 = body w @ take (4 + ?n) r"
          by (simp add: c(1) b2 inv(2) take_add)
        have r2: "r2 = drop (4 + ?n) r"
          by (simp add: c(2) inv(2) add.commute)
        show ?thesis
        proof (cases "LastBlock h")
          case True
          with step b3 have "body (snd (walkBlocks r w)) = body w @ take (4 + ?n) r"
            by simp
          then show ?thesis ..
        next
          case False
          have "length r2 < length r"
            using c(3) inv(2,3) by (simp add: r2)
          with 1 obtain k where "body (snd (walkBlocks r2 w3)) = body w3 @ take k r2"
            by blast
          with step False have "body (snd (walkBlocks r w)) = body w @ take (4 + ?n + k) r"
            by (simp add: b3 r2 take_add)
          then show ?thesis ..
        qed
      qed
    qed
  qed
qed

lemma walk_extends: "\<exists>x. body (snd (walkBlocks r w)) = body w @ x"
  using walk_prefix [of r w] by blast

section \<open>The handlers on the example inputs, and on the paths of the claims\<close>

lemma trackRe_example:
  "trackRe examplePath = [examplePath, ''01234567-89ab-cdef-0123-456789abcdef'']"
  by (simp add: trackRe_def examplePath_def lit_def hexrun_def hexdigit_def anyrune_def
      runeLen_def)

lemma exampleFlac_bytes:
  "exampleFlac = [0x66, 0x4C, 0x61, 0x43, 0, 0, 0, 0x22,
     0, 0, 0, 0, 0, 0, 0, 0, 0, 0, 0, 0, 0, 0, 0, 0, 0, 0, 0, 0, 0, 0, 0, 0, 0, 0, 0, 0, 0, 0,
     0, 0, 0, 0, 0x81, 0, 0, 2, 0xAA, 0xBB, 0xFF, 0xF8, 1, 2]"
  by (simp add: exampleFlac_def bytes_of_def eval_nat_numeral)

lemma magic_bytes: "magic = [0x66, 0x4C, 0x61, 0x43]"
  by (simp add: magic_def bytes_of_def)

lemma load_example:
  "loadTrackInfo (exampleEnv (Response 200 exampleJSON) s) i w =
     (Inr exampleTrack, effect (ImpalaGetTrack i) (effect ImpalaLogin w))"
  by (simp add: loadTrackInfo_def exampleEnv_def Let_def)

lemma load_ok:
  assumes "fst (loadTrackInfo e i w) = Inr data"
  shows "loadTrackInfo e i w = (Inr data, effect (ImpalaGetTrack i) (effect ImpalaLogin w))"
  using assms
  by (auto simp add: loadTrackInfo_def Let_def split: if_splits fetch.splits option.splits)

lemma handler_part002_fetched:
  assumes "Method r = ''GET''" and "trackRe (Path r) = [p, i]"
    and "fst (loadTrackInfo e i w) = Inr data"
    and "mossGet e (Holding_ID data) (File_Path data) = Response 200 b"
  shows "trackHandler_part002 e r w =
     streamTrack b (effect (MossGet (Holding_ID data) (File_Path data))
       (effect (ImpalaGetTrack i) (effect ImpalaLogin w)))"
  using assms(1,2,4) by (simp add: trackHandler_part002_def load_ok [OF assms(3)] failed_def)

lemma stream_bad_magic:
  "take 4 b \<noteq> magic \<Longrightarrow> streamTrack b w = fail500 ''Unable to decode track'' w"
  by (simp add: streamTrack_def ReadFull_def)

lemma fail500_fields:
  "status (fail500 m w) = Some (case status w of None \<Rightarrow> 500 | Some c \<Rightarrow> c)"
  "body (fail500 m w) =
     body w @ delivered (room w) (bytes_of ''Internal Server Error\<newline>'')"
  "logs (fail500 m w) = logs w @ [Msg m]"
  "effects (fail500 m w) = effects w"
  "panicked (fail500 m w) = panicked w"
  by (simp_all add: fail500_def Error_def logf_fields Write_fields WriteHeader_fields
      split: option.splits)

lemma length_magic: "length magic = 4"
  by (simp add: magic_def bytes_of_def)

lemma accepts_Write:
  assumes "accepts (room w) (length bs + k)"
  shows "\<exists>w'. Write bs w = (True, w') \<and> body w' = body w @ bs \<and> accepts (room w') k"
  using assms
  by (auto simp add: accepts_def Write_def Let_def WriteHeader_fields split: option.splits)

lemma stream_fixed_info:
  assumes "length fi = 38" and "accepts (room w) 42"
  shows "\<exists>x. body (streamTrack (magic @ fi @ rest) w) = body w @ magic @ fi @ x"
proof -
  have rf: "ReadFull (magic @ fi @ rest) 4 = Inr (magic, fi @ rest)"
    by (simp add: ReadFull_def length_magic)
  from assms(2) have "accepts (room w) (length magic + 38)"
    by (simp add: length_magic)
  from accepts_Write [OF this] obtain w1 where
    w1: "Write magic w = (True, w1)" "body w1 = body w @ magic" "accepts (room w1) 38"
    by blast
  from w1(3) assms(1) have "accepts (room w1) (length fi + 0)" by simp
  from accepts_Write [OF this] obtain w3 where
    w3: "Write fi w1 = (True, w3)" "body w3 = body w1 @ fi"
    by blast
  from assms(1) have "fi \<noteq> []" by auto
  with w3(1) assms(1) have cp: "CopyN w1 (fi @ rest) 0x26 = (True, w3, rest)"
    by (simp add: CopyN_def Copy_def)
  have b3: "body w3 = body w @ magic @ fi"
    by (simp add: w3(2) w1(2))
  have st: "streamTrack (magic @ fi @ rest) w =
      (case walkBlocks rest w3 of
         (None, w4) \<Rightarrow> w4
       | (Some r2, w4) \<Rightarrow>
           let (ok2, w5) = Copy w4 r2
           in if ok2 then w5 else logf (Msg ''Unable to decode track'') w5)"
    by (simp add: streamTrack_def rf w1(1) cp)
  obtain res w4 where wk: "walkBlocks rest w3 = (res, w4)" by (cases "walkBlocks rest w3")
  from walk_extends [of rest w3] wk obtain y where y: "body w4 = body w3 @ y" by auto
  show ?thesis
  proof (cases res)
    case None
    with st wk y b3 show ?thesis by simp
  next
    case (Some r2)
    from Copy_extends [of w4 r2] obtain z where "body (snd (Copy w4 r2)) = body w4 @ z" ..
    with st wk Some y b3 show ?thesis
      by (cases "Copy w4 r2") (auto simp add: logf_fields)
  qed
qed

lemma Write_connected:
  assumes "room w = None"
  shows "Write bs w = (True, w\<lparr>status := Some (case status w of None \<Rightarrow> 200 | Some c \<Rightarrow> c),
     body := body w @ bs\<rparr>)"
  using assms by (cases "status w") (simp_all add: Write_def WriteHeader_def Let_def)

lemma CopyN_connected:
  assumes "room w = None" and "n \<le> length r" and "status w \<noteq> None"
  shows "CopyN w r n = (True, w\<lparr>body := body w @ take n r\<rparr>, drop n r)"
  using assms by (auto simp add: CopyN_def Copy_def Write_connected)

lemma CopyN_truncated:
  assumes "room w = None" and "length r < n" and "status w \<noteq> None"
  shows "CopyN w r n = (False, w\<lparr>body := body w @ r\<rparr>, [])"
  using assms by (auto simp add: CopyN_def Copy_def Write_connected)

lemma error_body: "bytes_of ''Internal Server Error\<newline>'' =
  [73, 110, 116, 101, 114, 110, 97, 108, 32, 83, 101, 114, 118, 101, 114, 32, 69, 114, 114,
   111, 114, 10]"
  by (simp add: bytes_of_def)

lemma newResponse_fields:
  "status (newResponse rm) = None" "body (newResponse rm) = []" "room (newResponse rm) = rm"
  "logs (newResponse rm) = []" "effects (newResponse rm) = []"
  "panicked (newResponse rm) = False"
  by (simp_all add: newResponse_def)

lemma exampleTrack_fields:
  "Holding_ID exampleTrack = ''h1''" "File_Path exampleTrack = ''a/b.flac''"
  "Artist exampleTrack = ''A''" "Title exampleTrack = ''T''"
  by (simp_all add: exampleTrack_def)

lemma exampleEnv_moss: "mossGet (exampleEnv c s) h p = s"
  by (simp add: exampleEnv_def)

lemma handler_part002_example:
  "trackHandler_part002 (exampleEnv (Response 200 exampleJSON) s) exampleRequest w =
     (let w2 = effect (MossGet ''h1'' ''a/b.flac'')
                 (effect (ImpalaGetTrack ''01234567-89ab-cdef-0123-456789abcdef'')
                   (effect ImpalaLogin w));
          w3 = (if failed s then fail500 ''Unable to access track'' w2 else w2)
      in (case s of
            TransportError \<Rightarrow> w3\<lparr>panicked := True\<rparr>
          | Response code b \<Rightarrow> streamTrack b w3))"
  by (simp add: trackHandler_part002_def exampleRequest_def trackRe_example load_example
      exampleEnv_moss exampleTrack_fields Let_def)

lemma handler_example:
  assumes "Method r = ''GET''" and "Path r = examplePath"
  shows "trackHandler (exampleEnv (Response 200 exampleJSON) s) r w =
     (let w2 = effect (MossGet ''h1'' ''a/b.flac'')
                 (effect (ImpalaGetTrack ''01234567-89ab-cdef-0123-456789abcdef'')
                   (effect ImpalaLogin w))
      in if failed s then fail500 ''Failed to access track'' w2
         else (case s of
                 TransportError \<Rightarrow> w2
               | Response code b \<Rightarrow>
                   serveTagged (exampleEnv (Response 200 exampleJSON) s) r exampleTrack b w2))"
  using assms
  by (simp add: trackHandler_def trackRe_example load_example
      exampleEnv_moss exampleTrack_fields Let_def)

lemma exampleRequest_fields:
  "Method exampleRequest = ''GET''" "Path exampleRequest = examplePath"
  "Header exampleRequest = []"
  by (simp_all add: exampleRequest_def)

lemma rangeRequest_fields:
  "Method rangeRequest = ''GET''" "Path rangeRequest = examplePath"
  "Header rangeRequest = [(''Range'', ''bytes=0-3'')]"
  by (simp_all add: rangeRequest_def)

lemma conditional_examples: "\<not> conditional exampleRequest" "conditional rangeRequest"
  by (simp_all add: conditional_def conditionalHeaders_def exampleRequest_def
      rangeRequest_def)

lemma load_empty_body:
  "fst (loadTrackInfo (exampleEnv (Response 200 []) s) i w) = Inl DecodeError"
  by (simp add: loadTrackInfo_def exampleEnv_def Let_def exampleJSON_def bytes_of_def)


lemma ServeContent_fields:
  "status (ServeContent e r f w) =
     Some (case status w of None \<Rightarrow> fst (servedContent e r f) | Some c' \<Rightarrow> c')"
  "body (ServeContent e r f w) = body w @ delivered (room w) (snd (servedContent e r f))"
  "logs (ServeContent e r f w) = logs w" "effects (ServeContent e r f w) = effects w"
  "panicked (ServeContent e r f w) = panicked w"
  by (simp_all add: ServeContent_def Copy_def Write_fields WriteHeader_fields delivered_def
      split: option.splits)

lemma serveTagged_ok:
  assumes "\<not> tempFileFails e" and "accepts (diskRoom e) (length b)"
    and "\<not> closeFails e" and "metaflac e metaflacArgs (metaflacStdin track) b = Some f"
    and "\<not> openFails e"
  shows "serveTagged e r track b w =
     effect RemoveTemp (ServeContent e r f (effect OpenTemp
       (effect (Metaflac metaflacArgs (metaflacStdin track))
         (effect TempClose (effect (TempWrite b) (effect TempFile w))))))"
  using assms by (auto simp add: serveTagged_def accepts_def Let_def split: option.splits)



section \<open>The paths that the matcher accepts\<close>

text \<open>
  \<open>trackRe\<close> against the paths in words: the class \<^verbatim>\<open>[a-f0-9]\<close> is \<open>lowerHex\<close>, a match is a
  path made of \<^verbatim>\<open>/track/\<close>, five runs of 8, 4, 4, 4 and 12 such characters with hyphens
  between them, one rune that is not a newline, and \<^verbatim>\<open>flac\<close>; these are the paths of
  \<open>acceptedPath\<close>, and the paths of the spec are among them.
\<close>

lemma hexdigit_lowerHex: "hexdigit c = lowerHex c"
proof
  assume "hexdigit c"
  then show "lowerHex c"
    by (auto simp add: hexdigit_def lowerHex_def)
next
  assume a: "lowerHex c"
  define n where "n = (of_char c :: nat)"
  from a have "(48 \<le> n \<and> n \<le> 57) \<or> (97 \<le> n \<and> n \<le> 102)"
    by (simp add: lowerHex_def n_def Let_def)
  then have "n = 48 \<or> n = 49 \<or> n = 50 \<or> n = 51 \<or> n = 52 \<or> n = 53 \<or> n = 54 \<or> n = 55 \<or>
      n = 56 \<or> n = 57 \<or> n = 97 \<or> n = 98 \<or> n = 99 \<or> n = 100 \<or> n = 101 \<or> n = 102"
    by arith
  then have "n \<in> of_char ` set ''0123456789abcdef''"
    by auto
  then have "c \<in> set ''0123456789abcdef''"
    unfolding n_def by (simp only: inj_image_mem_iff [OF inj_of_char])
  then show "hexdigit c"
    by (auto simp add: hexdigit_def)
qed

lemma lit_Some: "lit l s = Some t \<longleftrightarrow> s = l @ t"
proof
  assume "lit l s = Some t"
  then have "take (length l) s = l" and "t = drop (length l) s"
    by (auto simp add: lit_def split: if_splits)
  then show "s = l @ t"
    using append_take_drop_id [of "length l" s] by simp
next
  assume "s = l @ t"
  then show "lit l s = Some t"
    by (simp add: lit_def)
qed

lemma hexrun_Some:
  "hexrun n s = Some t \<longleftrightarrow> (\<exists>h. s = h @ t \<and> length h = n \<and> list_all lowerHex h)"
proof
  assume "hexrun n s = Some t"
  then have a: "length (take n s) = n" "list_all lowerHex (take n s)" "t = drop n s"
    by (auto simp add: hexrun_def hexdigit_lowerHex [abs_def] split: if_splits)
  then have "s = take n s @ t"
    by simp
  with a show "\<exists>h. s = h @ t \<and> length h = n \<and> list_all lowerHex h"
    by blast
next
  assume "\<exists>h. s = h @ t \<and> length h = n \<and> list_all lowerHex h"
  then show "hexrun n s = Some t"
    by (auto simp add: hexrun_def hexdigit_lowerHex [abs_def])
qed

lemma anyrune_Some:
  "anyrune s = Some t \<longleftrightarrow> s \<noteq> [] \<and> hd s \<noteq> CHR ''\<newline>'' \<and> t = drop (runeLen s) s"
  by (auto simp add: anyrune_def)

lemma if_Some: "(if c then Some x else None) = Some y \<longleftrightarrow> c \<and> x = y"
  by simp

lemma trackRe_steps:
  assumes "trackRe p \<noteq> []"
  shows "\<exists>s0 s1 s2 s3 s4 s5 s6 s7 s8 s9 s10.
    lit ''/track/'' p = Some s0 \<and> hexrun 8 s0 = Some s1 \<and> lit ''-'' s1 = Some s2 \<and>
    hexrun 4 s2 = Some s3 \<and> lit ''-'' s3 = Some s4 \<and> hexrun 4 s4 = Some s5 \<and>
    lit ''-'' s5 = Some s6 \<and> hexrun 4 s6 = Some s7 \<and> lit ''-'' s7 = Some s8 \<and>
    hexrun 12 s8 = Some s9 \<and> anyrune s9 = Some s10 \<and> lit ''flac'' s10 = Some [] \<and>
    trackRe p = [p, take 36 s0]"
proof -
  from assms obtain u where u: "trackRe p = [p, u]"
    by (auto simp add: trackRe_def split: option.splits)
  then have "do {
        s0 \<leftarrow> lit ''/track/'' p;
        s1 \<leftarrow> hexrun 8 s0;
        s2 \<leftarrow> lit ''-'' s1;
        s3 \<leftarrow> hexrun 4 s2;
        s4 \<leftarrow> lit ''-'' s3;
        s5 \<leftarrow> hexrun 4 s4;
        s6 \<leftarrow> lit ''-'' s5;
        s7 \<leftarrow> hexrun 4 s6;
        s8 \<leftarrow> lit ''-'' s7;
        s9 \<leftarrow> hexrun 12 s8;
        s10 \<leftarrow> anyrune s9;
        s11 \<leftarrow> lit ''flac'' s10;
        if s11 = [] then Some (take 36 s0) else None
      } = Some u"
    unfolding trackRe_def by (simp split: option.splits)
  then show ?thesis
    unfolding bind_eq_Some_conv if_Some u by blast
qed

lemma trackRe_shape:
  "trackRe p \<noteq> [] \<longleftrightarrow>
     (\<exists>h1 h2 h3 h4 h5 t.
        p = ''/track/'' @ h1 @ ''-'' @ h2 @ ''-'' @ h3 @ ''-'' @ h4 @ ''-'' @ h5 @ t \<and>
        length h1 = 8 \<and> length h2 = 4 \<and> length h3 = 4 \<and> length h4 = 4 \<and> length h5 = 12 \<and>
        list_all lowerHex h1 \<and> list_all lowerHex h2 \<and> list_all lowerHex h3 \<and>
        list_all lowerHex h4 \<and> list_all lowerHex h5 \<and>
        t \<noteq> [] \<and> hd t \<noteq> CHR ''\<newline>'' \<and> drop (runeLen t) t = ''flac'')"
  (is "?l \<longleftrightarrow> ?r")
proof
  assume ?l
  from trackRe_steps [OF this] obtain s0 s1 s2 s3 s4 s5 s6 s7 s8 s9 s10 where
    m: "lit ''/track/'' p = Some s0" "hexrun 8 s0 = Some s1" "lit ''-'' s1 = Some s2"
      "hexrun 4 s2 = Some s3" "lit ''-'' s3 = Some s4" "hexrun 4 s4 = Some s5"
      "lit ''-'' s5 = Some s6" "hexrun 4 s6 = Some s7" "lit ''-'' s7 = Some s8"
      "hexrun 12 s8 = Some s9" "anyrune s9 = Some s10" "lit ''flac'' s10 = Some []"
    by blast
  from m(2) obtain h1 where h1: "s0 = h1 @ s1" "length h1 = 8" "list_all lowerHex h1"
    unfolding hexrun_Some by blast
  from m(4) obtain h2 where h2: "s2 = h2 @ s3" "length h2 = 4" "list_all lowerHex h2"
    unfolding hexrun_Some by blast
  from m(6) obtain h3 where h3: "s4 = h3 @ s5" "length h3 = 4" "list_all lowerHex h3"
    unfolding hexrun_Some by blast
  from m(8) obtain h4 where h4: "s6 = h4 @ s7" "length h4 = 4" "list_all lowerHex h4"
    unfolding hexrun_Some by blast
  from m(10) obtain h5 where h5: "s8 = h5 @ s9" "length h5 = 12" "list_all lowerHex h5"
    unfolding hexrun_Some by blast
  from m(1,3,5,7,9) h1(1) h2(1) h3(1) h4(1) h5(1)
  have "p = ''/track/'' @ h1 @ ''-'' @ h2 @ ''-'' @ h3 @ ''-'' @ h4 @ ''-'' @ h5 @ s9"
    by (simp add: lit_Some)
  moreover from m(11,12) have "s9 \<noteq> []" "hd s9 \<noteq> CHR ''\<newline>''"
    "drop (runeLen s9) s9 = ''flac''"
    by (simp_all add: anyrune_Some lit_Some)
  ultimately show ?r
    using h1(2,3) h2(2,3) h3(2,3) h4(2,3) h5(2,3) by blast
next
  assume ?r
  then obtain h1 h2 h3 h4 h5 t where
    p: "p = ''/track/'' @ h1 @ ''-'' @ h2 @ ''-'' @ h3 @ ''-'' @ h4 @ ''-'' @ h5 @ t"
    and l: "length h1 = 8" "length h2 = 4" "length h3 = 4" "length h4 = 4" "length h5 = 12"
    and x: "list_all lowerHex h1" "list_all lowerHex h2" "list_all lowerHex h3"
      "list_all lowerHex h4" "list_all lowerHex h5"
    and t: "t \<noteq> []" "hd t \<noteq> CHR ''\<newline>''" "drop (runeLen t) t = ''flac''"
    by blast
  have a: "lit ''/track/'' p = Some (h1 @ ''-'' @ h2 @ ''-'' @ h3 @ ''-'' @ h4 @ ''-'' @ h5 @ t)"
    unfolding lit_Some p by simp
  have b: "hexrun 8 (h1 @ s) = Some s" "hexrun 4 (h2 @ s) = Some s"
    "hexrun 4 (h3 @ s) = Some s" "hexrun 4 (h4 @ s) = Some s"
    "hexrun 12 (h5 @ s) = Some s" for s
    unfolding hexrun_Some using l x by blast+
  have c: "lit ''-'' (''-'' @ s) = Some s" for s
    unfolding lit_Some by simp
  have d: "anyrune t = Some ''flac''"
    unfolding anyrune_Some using t by simp
  have e: "lit ''flac'' ''flac'' = Some []"
    unfolding lit_Some by simp
  show ?l
    unfolding trackRe_def by (simp only: a b c d e bind.bind_lunit) simp
qed

lemma trackRe_result: "trackRe p = [] \<or> trackRe p = [p, take 36 (drop 7 p)]"
proof (cases "trackRe p = []")
  case True
  then show ?thesis ..
next
  case False
  from trackRe_steps [OF this] obtain s0 where
    "lit ''/track/'' p = Some s0" "trackRe p = [p, take 36 s0]"
    by blast
  then show ?thesis
    by (simp add: lit_Some)
qed

lemma acceptedPath_intro:
  assumes "\<exists>h1 h2 h3 h4 h5 t.
        p = ''/track/'' @ h1 @ ''-'' @ h2 @ ''-'' @ h3 @ ''-'' @ h4 @ ''-'' @ h5 @ t \<and>
        length h1 = 8 \<and> length h2 = 4 \<and> length h3 = 4 \<and> length h4 = 4 \<and> length h5 = 12 \<and>
        list_all lowerHex h1 \<and> list_all lowerHex h2 \<and> list_all lowerHex h3 \<and>
        list_all lowerHex h4 \<and> list_all lowerHex h5 \<and>
        t \<noteq> [] \<and> hd t \<noteq> CHR ''\<newline>'' \<and> drop (runeLen t) t = ''flac''"
  shows "acceptedPath p"
proof -
  from assms obtain h1 h2 h3 h4 h5 t where
    p: "p = ''/track/'' @ h1 @ ''-'' @ h2 @ ''-'' @ h3 @ ''-'' @ h4 @ ''-'' @ h5 @ t"
    and l: "length h1 = 8" "length h2 = 4" "length h3 = 4" "length h4 = 4" "length h5 = 12"
    and x: "list_all lowerHex h1" "list_all lowerHex h2" "list_all lowerHex h3"
      "list_all lowerHex h4" "list_all lowerHex h5"
    and t: "t \<noteq> []" "hd t \<noteq> CHR ''\<newline>''" "drop (runeLen t) t = ''flac''"
    by blast
  have u: "take 36 (drop 7 p) = h1 @ ''-'' @ h2 @ ''-'' @ h3 @ ''-'' @ h4 @ ''-'' @ h5"
    by (simp add: p l)
  have d: "drop 43 p = t"
    by (simp add: p l)
  have "isUUID (h1 @ ''-'' @ h2 @ ''-'' @ h3 @ ''-'' @ h4 @ ''-'' @ h5)"
    by (simp add: isUUID_def l x)
  moreover have "take 7 p = ''/track/''"
    by (simp add: p)
  moreover have "drop (43 + runeLen t) p = drop (runeLen t) (drop 43 p)"
    by (simp add: add.commute)
  then have "drop (43 + runeLen (drop 43 p)) p = ''flac''"
    using t(3) by (simp only: d)
  ultimately show ?thesis
    using t(1,2) by (simp add: acceptedPath_def u d)
qed

lemma acceptedPath_elim:
  assumes "acceptedPath p"
  shows "\<exists>h1 h2 h3 h4 h5 t.
        p = ''/track/'' @ h1 @ ''-'' @ h2 @ ''-'' @ h3 @ ''-'' @ h4 @ ''-'' @ h5 @ t \<and>
        length h1 = 8 \<and> length h2 = 4 \<and> length h3 = 4 \<and> length h4 = 4 \<and> length h5 = 12 \<and>
        list_all lowerHex h1 \<and> list_all lowerHex h2 \<and> list_all lowerHex h3 \<and>
        list_all lowerHex h4 \<and> list_all lowerHex h5 \<and>
        t \<noteq> [] \<and> hd t \<noteq> CHR ''\<newline>'' \<and> drop (runeLen t) t = ''flac''"
proof -
  define u where "u = take 36 (drop 7 p)"
  define t where "t = drop 43 p"
  define h1 where "h1 = take 8 u"
  define h2 where "h2 = take 4 (drop 9 u)"
  define h3 where "h3 = take 4 (drop 14 u)"
  define h4 where "h4 = take 4 (drop 19 u)"
  define h5 where "h5 = drop 24 u"
  from assms have i: "isUUID u" and s: "take 7 p = ''/track/''" and t: "t \<noteq> []"
    "hd t \<noteq> CHR ''\<newline>''" and f: "drop (43 + runeLen t) p = ''flac''"
    by (simp_all add: acceptedPath_def u_def t_def)
  from i have n: "length u = 36"
    by (simp add: isUUID_def)
  have "take 7 p @ take 36 (drop 7 p) @ drop 36 (drop 7 p) = p"
    by (simp only: append_take_drop_id)
  then have p: "''/track/'' @ u @ t = p"
    by (simp only: s u_def t_def drop_drop) simp
  have c: "take 1 (drop k u) = ''-'' \<Longrightarrow> drop k u = ''-'' @ drop (Suc k) u" for k
    using append_take_drop_id [of 1 "drop k u"] by (simp del: append_take_drop_id)
  have g: "take 8 u @ drop 8 u = u" "take 4 (drop 9 u) @ drop 13 u = drop 9 u"
    "take 4 (drop 14 u) @ drop 18 u = drop 14 u"
    "take 4 (drop 19 u) @ drop 23 u = drop 19 u"
    using append_take_drop_id [of 4 "drop 9 u"] append_take_drop_id [of 4 "drop 14 u"]
      append_take_drop_id [of 4 "drop 19 u"]
    by (simp_all del: append_take_drop_id) simp
  from i have j: "take 1 (drop 8 u) = ''-''" "take 1 (drop 13 u) = ''-''"
    "take 1 (drop 18 u) = ''-''" "take 1 (drop 23 u) = ''-''"
    by (simp_all add: isUUID_def)
  have h: "drop 8 u = ''-'' @ drop 9 u" "drop 13 u = ''-'' @ drop 14 u"
    "drop 18 u = ''-'' @ drop 19 u" "drop 23 u = ''-'' @ drop 24 u"
    using c [OF j(1)] c [OF j(2)] c [OF j(3)] c [OF j(4)] by simp_all
  have "h1 @ ''-'' @ h2 @ ''-'' @ h3 @ ''-'' @ h4 @ ''-'' @ h5 =
      take 8 u @ ''-'' @ take 4 (drop 9 u) @ ''-'' @ take 4 (drop 14 u) @ ''-'' @
        take 4 (drop 19 u) @ drop 23 u"
    by (simp only: h1_def h2_def h3_def h4_def h5_def h(4))
  also have "\<dots> = take 8 u @ ''-'' @ take 4 (drop 9 u) @ ''-'' @ take 4 (drop 14 u) @
      drop 18 u"
    by (simp only: g(4) h(3) [symmetric])
  also have "\<dots> = take 8 u @ ''-'' @ take 4 (drop 9 u) @ drop 13 u"
    by (simp only: g(3) h(2) [symmetric])
  also have "\<dots> = take 8 u @ drop 8 u"
    by (simp only: g(2) h(1) [symmetric])
  also have "\<dots> = u"
    by (rule g(1))
  finally have uu: "h1 @ ''-'' @ h2 @ ''-'' @ h3 @ ''-'' @ h4 @ ''-'' @ h5 = u" .
  have "''/track/'' @ (h1 @ ''-'' @ h2 @ ''-'' @ h3 @ ''-'' @ h4 @ ''-'' @ h5) @ t = p"
    by (simp only: uu p)
  then have "p = ''/track/'' @ h1 @ ''-'' @ h2 @ ''-'' @ h3 @ ''-'' @ h4 @ ''-'' @ h5 @ t"
    by (simp only: append_assoc append_Cons append_Nil)
  moreover from f have "drop (runeLen t) t = ''flac''"
    by (simp add: t_def add.commute)
  moreover from i n have "list_all lowerHex h1" "list_all lowerHex h2"
    "list_all lowerHex h3" "list_all lowerHex h4" "list_all lowerHex h5"
    "length h1 = 8" "length h2 = 4" "length h3 = 4" "length h4 = 4" "length h5 = 12"
    by (simp_all add: isUUID_def h1_def h2_def h3_def h4_def h5_def)
  ultimately show ?thesis
    using t by blast
qed

lemma trackRe_accepted:
  "trackRe p = (if acceptedPath p then [p, take 36 (drop 7 p)] else [])"
proof (cases "acceptedPath p")
  case True
  from acceptedPath_elim [OF True] have "trackRe p \<noteq> []"
    unfolding trackRe_shape .
  with trackRe_result [of p] True show ?thesis
    by simp
next
  case False
  have "trackRe p = []"
  proof (rule ccontr)
    assume "trackRe p \<noteq> []"
    then have "\<exists>h1 h2 h3 h4 h5 t.
        p = ''/track/'' @ h1 @ ''-'' @ h2 @ ''-'' @ h3 @ ''-'' @ h4 @ ''-'' @ h5 @ t \<and>
        length h1 = 8 \<and> length h2 = 4 \<and> length h3 = 4 \<and> length h4 = 4 \<and> length h5 = 12 \<and>
        list_all lowerHex h1 \<and> list_all lowerHex h2 \<and> list_all lowerHex h3 \<and>
        list_all lowerHex h4 \<and> list_all lowerHex h5 \<and>
        t \<noteq> [] \<and> hd t \<noteq> CHR ''\<newline>'' \<and> drop (runeLen t) t = ''flac''"
      unfolding trackRe_shape .
    from acceptedPath_intro [OF this] False show False
      by simp
  qed
  with False show ?thesis
    by simp
qed

lemma specPath_accepted:
  assumes "specPath p"
  shows "acceptedPath p"
proof -
  define u where "u = take 36 (drop 7 p)"
  from assms have i: "isUUID u" and p: "p = ''/track/'' @ u @ ''.flac''"
    by (simp_all add: specPath_def u_def)
  from i have n: "length u = 36"
    by (simp add: isUUID_def)
  have "drop 43 p = ''.flac''"
    by (simp add: p n)
  moreover have "runeLen ''.flac'' = 1"
    by (simp add: runeLen_def)
  moreover have "take 36 (drop 7 p) = u"
    by (simp add: u_def)
  moreover have "take 7 p = ''/track/''"
    by (simp add: p)
  moreover have "drop 44 p = ''flac''"
    by (simp add: p n)
  ultimately show ?thesis
    using i by (simp add: acceptedPath_def)
qed

section \<open>The steps of the handler of src/main.go\<close>

lemma load_found:
  assumes "\<not> newRequestFails e" and "\<not> loginFails e" and "impalaGet e i = Response 200 c"
    and "jsonDecode e c = Some track"
  shows "loadTrackInfo e i w =
     (Inr track, effect (ImpalaGetTrack i) (effect ImpalaLogin w))"
  using assms by (simp add: loadTrackInfo_def Let_def)

lemma stored_delivered:
  "(case diskRoom e of None \<Rightarrow> b | Some n \<Rightarrow> take n b) = delivered (diskRoom e) b"
  by (simp add: delivered_def)

lemma delivered_whole: "(delivered rm b = b) = accepts rm (length b)"
  by (auto simp add: delivered_def accepts_def split: option.splits)

lemma serveTagged_no_file:
  assumes "tempFileFails e"
  shows "serveTagged e r track b w = fail500 ''Failed to create temporary file'' w"
  using assms by (simp add: serveTagged_def)

lemma serveTagged_disk_full:
  assumes "\<not> tempFileFails e" and "\<not> accepts (diskRoom e) (length b)"
  shows "serveTagged e r track b w =
     effect RemoveTemp (fail500 ''Failed to download track''
       (effect (TempWrite (delivered (diskRoom e) b)) (effect TempFile w)))"
  using assms by (simp add: serveTagged_def Let_def stored_delivered delivered_whole)

lemma serveTagged_not_closed:
  assumes "\<not> tempFileFails e" and "accepts (diskRoom e) (length b)" and "closeFails e"
  shows "serveTagged e r track b w =
     effect RemoveTemp (fail500 ''Failed to close temporary file''
       (effect TempClose (effect (TempWrite b) (effect TempFile w))))"
proof -
  from assms(2) have "delivered (diskRoom e) b = b"
    by (simp add: delivered_whole)
  with assms show ?thesis
    by (simp add: serveTagged_def Let_def stored_delivered)
qed

lemma serveTagged_not_tagged:
  assumes "\<not> tempFileFails e" and "accepts (diskRoom e) (length b)" and "\<not> closeFails e"
    and "metaflac e metaflacArgs (metaflacStdin track) b = None"
  shows "serveTagged e r track b w =
     effect RemoveTemp (fail500 ''Failed to modify track metadata''
       (effect (Metaflac metaflacArgs (metaflacStdin track))
         (effect TempClose (effect (TempWrite b) (effect TempFile w)))))"
proof -
  from assms(2) have "delivered (diskRoom e) b = b"
    by (simp add: delivered_whole)
  with assms show ?thesis
    by (simp add: serveTagged_def Let_def stored_delivered)
qed

lemma serveTagged_not_opened:
  assumes "\<not> tempFileFails e" and "accepts (diskRoom e) (length b)" and "\<not> closeFails e"
    and "metaflac e metaflacArgs (metaflacStdin track) b = Some f" and "openFails e"
  shows "serveTagged e r track b w =
     effect RemoveTemp (fail500 ''Failed to load track''
       (effect (Metaflac metaflacArgs (metaflacStdin track))
         (effect TempClose (effect (TempWrite b) (effect TempFile w)))))"
proof -
  from assms(2) have "delivered (diskRoom e) b = b"
    by (simp add: delivered_whole)
  with assms show ?thesis
    by (simp add: serveTagged_def Let_def stored_delivered)
qed

lemma handler_accepted:
  assumes "Method r = ''GET''" and "acceptedPath (Path r)"
    and "\<not> newRequestFails e" and "\<not> loginFails e"
    and "impalaGet e (take 36 (drop 7 (Path r))) = Response 200 c"
    and "jsonDecode e c = Some track"
    and "mossGet e (Holding_ID track) (File_Path track) = Response 200 b"
  shows "trackHandler e r w =
     serveTagged e r track b (effect (MossGet (Holding_ID track) (File_Path track))
       (effect (ImpalaGetTrack (take 36 (drop 7 (Path r)))) (effect ImpalaLogin w)))"
  using assms(1,2,7)
  by (simp add: trackHandler_def trackRe_accepted load_found [OF assms(3-6)] failed_def)

lemma accepted_example:
  "acceptedPath examplePath"
  "take 36 (drop 7 examplePath) = ''01234567-89ab-cdef-0123-456789abcdef''"
  by (simp_all add: acceptedPath_def isUUID_def lowerHex_def examplePath_def runeLen_def)

lemma exampleServing_fields:
  "\<not> newRequestFails exampleServing" "\<not> loginFails exampleServing"
  "impalaGet exampleServing i = Response 200 exampleJSON"
  "jsonDecode exampleServing exampleJSON = Some exampleTrack"
  "mossGet exampleServing h p = Response 200 exampleFlac"
  "\<not> tempFileFails exampleServing" "diskRoom exampleServing = None"
  "\<not> closeFails exampleServing" "metaflac exampleServing a s f = Some f"
  "\<not> openFails exampleServing" "serveConditional exampleServing = firstFour"
  by (simp_all add: exampleServing_def exampleEnv_def)

section \<open>Claims about the block header codec\<close>

text \<open>
  Claim C3. Decoding four bytes unpacks, most significant bit first, a 1-bit \<open>LastBlock\<close>
  flag, a 7-bit \<open>Type\<close> and a 24-bit big-endian \<open>Length\<close>; encoding gives exactly four
  bytes; and for every header with \<open>Type\<close> at most 126 and \<open>Length\<close> at most 16777215,
  decoding the encoding returns the same header. The length of the claim is the 24-bit
  unsigned field of the layout, a number from 0 to 16777215: on the \<^verbatim>\<open>int64\<close> field of the
  struct that range is written out with its lower bound, which every header that
  \<open>parseBlockHeader\<close> returns meets (\<open>parse_inverts\<close>).
\<close>

theorem header_codec_roundtrip:
  "parseBlockHeader [b0, b1, b2, b3] =
     Inr (\<lparr>LastBlock = bit b0 7, Type = take_bit 7 b0,
           Length = uint b1 * 65536 + uint b2 * 256 + uint b3\<rparr>, []) \<and>
   length (Marshal h) = 4 \<and>
   (Type h \<le> 126 \<and> 0 \<le> Length h \<and> Length h \<le> 16777215 \<longrightarrow>
      parseBlockHeader (Marshal h) = Inr (h, []))"
proof (intro conjI impI)
  show "parseBlockHeader [b0, b1, b2, b3] =
     Inr (\<lparr>LastBlock = bit b0 7, Type = take_bit 7 b0,
           Length = uint b1 * 65536 + uint b2 * 256 + uint b3\<rparr>, [])"
    by (rule parseBlockHeader_bytes)
  show "length (Marshal h) = 4"
    by (rule Marshal_length)
next
  assume a: "Type h \<le> 126 \<and> 0 \<le> Length h \<and> Length h \<le> 16777215"
  then have "Type h \<le> 127"
    by (simp add: word_le_def)
  with a show "parseBlockHeader (Marshal h) = Inr (h, [])"
    using parse_Marshal [of h "[]"] by simp
qed

text \<open>
  The header of a last TAGS block of 258 bytes: it is in the range of the theorem, it
  encodes to \<open>84 00 01 02\<close>, and these bytes decode to it.
\<close>

theorem header_codec_roundtrip_witness:
  "Type \<lparr>LastBlock = True, Type = 4, Length = 258\<rparr> \<le> 126 \<and>
   0 \<le> Length \<lparr>LastBlock = True, Type = 4, Length = 258\<rparr> \<and>
   Length \<lparr>LastBlock = True, Type = 4, Length = 258\<rparr> \<le> 16777215 \<and>
   Marshal \<lparr>LastBlock = True, Type = 4, Length = 258\<rparr> = [0x84, 0, 1, 2] \<and>
   parseBlockHeader [0x84, 0, 1, 2] = Inr (\<lparr>LastBlock = True, Type = 4, Length = 258\<rparr>, [])"
  using header_codec_roundtrip [where h = "\<lparr>LastBlock = True, Type = 4, Length = 258\<rparr>"]
  by (simp add: Marshal_def)

text \<open>
  Claim C10. Whenever \<open>parseBlockHeader\<close> succeeds on a stream, the header it returns has
  \<open>Type \<le> 127\<close> and \<open>0 \<le> Length \<le> 16777215\<close>, and \<open>Marshal\<close> of that header is exactly
  the four bytes that were read. Consequently what the walk over the metadata blocks
  writes (every header re-encoded, every body copied) is always the beginning of the
  stream it reads, byte for byte, however the walk ends; and when it ends at the last
  block, it is exactly the part of the stream that was read.
\<close>

theorem parsed_header_marshals_back:
  "(parseBlockHeader r = Inr (h, r') \<longrightarrow>
      Type h \<le> 127 \<and> 0 \<le> Length h \<and> Length h \<le> 16777215 \<and>
      Marshal h = take 4 r \<and> r' = drop 4 r) \<and>
   (\<exists>k. body (snd (walkBlocks r w)) = body w @ take k r) \<and>
   (walkBlocks r w = (Some rest, w') \<longrightarrow>
      body w' = body w @ take (length r - length rest) r \<and>
      rest = drop (length r - length rest) r)"
proof (intro conjI impI)
  show "\<exists>k. body (snd (walkBlocks r w)) = body w @ take k r"
    by (rule walk_prefix)
next
  assume p: "parseBlockHeader r = Inr (h, r')"
  note inv = parse_inverts [OF p]
  show "Type h \<le> 127" by (rule inv(4))
  show "0 \<le> Length h" by (rule inv(5))
  show "Length h \<le> 16777215" by (rule inv(6))
  show "Marshal h = take 4 r" by (rule inv(1))
  show "r' = drop 4 r" by (rule inv(2))
next
  assume "walkBlocks r w = (Some rest, w')"
  from walk_passthrough [OF this] obtain k where
    k: "k \<le> length r" "rest = drop k r" "body w' = body w @ take k r"
    by blast
  then have "length r - length rest = k" by simp
  with k show "body w' = body w @ take (length r - length rest) r"
    and "rest = drop (length r - length rest) r"
    by simp_all
qed

text \<open>
  A last TAGS block of two bytes followed by two bytes of audio: the header \<open>84 00 00 02\<close>
  parses, marshals back to the same bytes, and the walk writes the six bytes of the block.
\<close>

theorem parsed_header_marshals_back_witness:
  "parseBlockHeader [0x84, 0, 0, 2, 0xAA, 0xBB, 0xFF, 0xF8] =
     Inr (\<lparr>LastBlock = True, Type = 4, Length = 2\<rparr>, [0xAA, 0xBB, 0xFF, 0xF8]) \<and>
   Marshal \<lparr>LastBlock = True, Type = 4, Length = 2\<rparr> = [0x84, 0, 0, 2] \<and>
   walkBlocks [0x84, 0, 0, 2, 0xAA, 0xBB, 0xFF, 0xF8] (newResponse None) =
     (Some [0xFF, 0xF8],
      \<lparr>status = Some 200, body = [0x84, 0, 0, 2, 0xAA, 0xBB], room = None,
       logs = [Block True 4 2], effects = [], panicked = False\<rparr>) \<and>
   body \<lparr>status = Some 200, body = [0x84, 0, 0, 2, 0xAA, 0xBB], room = None,
       logs = [Block True 4 2], effects = [], panicked = False\<rparr> =
     body (newResponse None) @ take 6 [0x84, 0, 0, 2, 0xAA, 0xBB, 0xFF, 0xF8]"
proof -
  have p: "parseBlockHeader [0x84, 0, 0, 2, 0xAA, 0xBB, 0xFF, 0xF8] =
     Inr (\<lparr>LastBlock = True, Type = 4, Length = 2\<rparr>, [0xAA, 0xBB, 0xFF, 0xF8])"
    by (simp add: parseBlockHeader_bytes)
  have w: "walkBlocks [0x84, 0, 0, 2, 0xAA, 0xBB, 0xFF, 0xF8] (newResponse None) =
     (Some [0xFF, 0xF8],
      \<lparr>status = Some 200, body = [0x84, 0, 0, 2, 0xAA, 0xBB], room = None,
       logs = [Block True 4 2], effects = [], panicked = False\<rparr>)"
    by (simp add: walkBlocks_bytes Write_def CopyN_def Copy_def WriteHeader_def Let_def
        logf_def newResponse_def)
  from parsed_header_marshals_back [of "[0x84, 0, 0, 2, 0xAA, 0xBB, 0xFF, 0xF8]"
      "\<lparr>LastBlock = True, Type = 4, Length = 2\<rparr>" "[0xAA, 0xBB, 0xFF, 0xF8]"
      "newResponse None" "[0xFF, 0xF8]"
      "\<lparr>status = Some 200, body = [0x84, 0, 0, 2, 0xAA, 0xBB], room = None,
       logs = [Block True 4 2], effects = [], panicked = False\<rparr>"] p w
  show ?thesis by simp
qed

section \<open>Claims about the streaming handler\<close>

text \<open>
  Claim C8. For a request that reaches the object store and gets a file that starts with
  the signature, the 38 bytes after the signature (the header and the 34-byte body of
  STREAMINFO) are copied to the response unchanged, right after the signature, whatever
  they are: they are bytes 4 to 41 of the body sent. The client has to stay connected for
  these 42 bytes (\<open>accepts rm 42\<close>).
\<close>

theorem fixed_info_copied_unchanged:
  assumes "Method r = ''GET''" and "trackRe (Path r) = [p, i]"
    and "fst (loadTrackInfo e i (newResponse rm)) = Inr data"
    and "mossGet e (Holding_ID data) (File_Path data) = Response 200 (magic @ fi @ rest)"
    and "length fi = 38" and "accepts rm 42"
  shows "take 42 (body (trackHandler_part002 e r (newResponse rm))) = magic @ fi"
proof -
  let ?w = "effect (MossGet (Holding_ID data) (File_Path data))
       (effect (ImpalaGetTrack i) (effect ImpalaLogin (newResponse rm)))"
  have w: "body ?w = []" "room ?w = rm"
    by (simp_all add: effect_fields newResponse_def)
  from stream_fixed_info [OF assms(5), of ?w rest] assms(6) w
  obtain x where "body (streamTrack (magic @ fi @ rest) ?w) = magic @ fi @ x"
    by auto
  then show ?thesis
    by (simp add: handler_part002_fetched [OF assms(1-4)] length_magic assms(5))
qed

text \<open>The example file, served to a client that reads everything.\<close>

theorem fixed_info_copied_unchanged_witness:
  "Method exampleRequest = ''GET'' \<and>
   trackRe (Path exampleRequest) = [examplePath, ''01234567-89ab-cdef-0123-456789abcdef''] \<and>
   fst (loadTrackInfo (exampleEnv (Response 200 exampleJSON) (Response 200 exampleFlac))
      ''01234567-89ab-cdef-0123-456789abcdef'' (newResponse None)) = Inr exampleTrack \<and>
   mossGet (exampleEnv (Response 200 exampleJSON) (Response 200 exampleFlac))
       (Holding_ID exampleTrack) (File_Path exampleTrack) =
     Response 200 (magic @ ([0, 0, 0, 0x22] @ replicate 34 0) @
       [0x81, 0, 0, 2, 0xAA, 0xBB, 0xFF, 0xF8, 1, 2]) \<and>
   length ([0, 0, 0, 0x22] @ replicate 34 (0::byte)) = 38 \<and>
   accepts None 42 \<and>
   take 42 (body (trackHandler_part002 (exampleEnv (Response 200 exampleJSON) (Response 200 exampleFlac))
       exampleRequest (newResponse None))) =
     magic @ [0, 0, 0, 0x22] @ replicate 34 0"
proof -
  have a: "Method exampleRequest = ''GET''"
    by (simp add: exampleRequest_def)
  have b: "trackRe (Path exampleRequest) =
      [examplePath, ''01234567-89ab-cdef-0123-456789abcdef'']"
    by (simp add: exampleRequest_def trackRe_example)
  have c: "fst (loadTrackInfo (exampleEnv (Response 200 exampleJSON) (Response 200 exampleFlac))
      ''01234567-89ab-cdef-0123-456789abcdef'' (newResponse None)) = Inr exampleTrack"
    by (simp add: load_example)
  have d: "mossGet (exampleEnv (Response 200 exampleJSON) (Response 200 exampleFlac))
       (Holding_ID exampleTrack) (File_Path exampleTrack) =
     Response 200 (magic @ ([0, 0, 0, 0x22] @ replicate 34 0) @
       [0x81, 0, 0, 2, 0xAA, 0xBB, 0xFF, 0xF8, 1, 2])"
    by (simp add: exampleEnv_def exampleFlac_def magic_def)
  have e: "length ([0, 0, 0, 0x22] @ replicate 34 (0::byte)) = 38"
    by simp
  have f: "accepts None 42"
    by (simp add: accepts_def)
  from fixed_info_copied_unchanged [OF a b c d e f] a b c d e f show ?thesis
    by simp
qed

text \<open>
  Claim C7, as the code has it. The walk does not look at the type of a block: a header of
  type 127 is logged, re-encoded and written like any other, and its body is copied; the
  walk then ends if the block is the last one and goes on with the next header if not.
  A block whose declared length is more than what is left of the stream stops the walk
  with the error "Unable to decode track" logged, after its header and the bytes that
  were left have been written. Both for a client that stays connected.
\<close>

theorem walker_forwards_type_127:
  "(parseBlockHeader r = Inr (h, r1) \<and> Type h = 127 \<and> nat (Length h) \<le> length r1 \<and>
    room w = None \<longrightarrow>
      walkBlocks r w =
        (let w' = w\<lparr>logs := logs w @ [Block (LastBlock h) 127 (Length h)],
                    status := Some (case status w of None \<Rightarrow> 200 | Some c \<Rightarrow> c),
                    body := body w @ take 4 r @ take (nat (Length h)) r1\<rparr>
         in if LastBlock h then (Some (drop (nat (Length h)) r1), w')
            else walkBlocks (drop (nat (Length h)) r1) w')) \<and>
   (parseBlockHeader r = Inr (h, r1) \<and> length r1 < nat (Length h) \<and> room w = None \<longrightarrow>
      walkBlocks r w =
        (None, w\<lparr>logs := logs w @ [Block (LastBlock h) (Type h) (Length h),
                   Msg ''Unable to decode track''],
                 status := Some (case status w of None \<Rightarrow> 200 | Some c \<Rightarrow> c),
                 body := body w @ r\<rparr>))"
proof (intro conjI impI)
  assume a: "parseBlockHeader r = Inr (h, r1) \<and> Type h = 127 \<and>
    nat (Length h) \<le> length r1 \<and> room w = None"
  then have p: "parseBlockHeader r = Inr (h, r1)" by simp
  note inv = parse_inverts [OF p]
  let ?w1 = "logf (Block (LastBlock h) (Type h) (Length h)) w"
  let ?w2 = "?w1\<lparr>status := Some (case status ?w1 of None \<Rightarrow> 200 | Some c \<Rightarrow> c),
     body := body ?w1 @ Marshal h\<rparr>"
  from a have wr: "Write (Marshal h) ?w1 = (True, ?w2)"
    by (intro Write_connected) (simp add: logf_fields)
  from a have cp: "CopyN ?w2 r1 (nat (Length h)) =
      (True, ?w2\<lparr>body := body ?w2 @ take (nat (Length h)) r1\<rparr>, drop (nat (Length h)) r1)"
    by (intro CopyN_connected) (simp_all add: logf_fields split: option.splits)
  from walkBlocks_step [OF p wr cp] a show "walkBlocks r w =
        (let w' = w\<lparr>logs := logs w @ [Block (LastBlock h) 127 (Length h)],
                    status := Some (case status w of None \<Rightarrow> 200 | Some c \<Rightarrow> c),
                    body := body w @ take 4 r @ take (nat (Length h)) r1\<rparr>
         in if LastBlock h then (Some (drop (nat (Length h)) r1), w')
            else walkBlocks (drop (nat (Length h)) r1) w')"
    by (cases "LastBlock h") (simp_all add: logf_def inv(1) Let_def)
next
  assume a: "parseBlockHeader r = Inr (h, r1) \<and> length r1 < nat (Length h) \<and> room w = None"
  then have p: "parseBlockHeader r = Inr (h, r1)" by simp
  note inv = parse_inverts [OF p]
  let ?w1 = "logf (Block (LastBlock h) (Type h) (Length h)) w"
  let ?w2 = "?w1\<lparr>status := Some (case status ?w1 of None \<Rightarrow> 200 | Some c \<Rightarrow> c),
     body := body ?w1 @ Marshal h\<rparr>"
  from a have wr: "Write (Marshal h) ?w1 = (True, ?w2)"
    by (intro Write_connected) (simp add: logf_fields)
  from a have cp: "CopyN ?w2 r1 (nat (Length h)) = (False, ?w2\<lparr>body := body ?w2 @ r1\<rparr>, [])"
    by (intro CopyN_truncated) (simp_all add: logf_fields split: option.splits)
  have "take 4 r @ r1 = r" by (simp add: inv(2))
  with walkBlocks_copy_fails [OF p wr cp] show "walkBlocks r w =
        (None, w\<lparr>logs := logs w @ [Block (LastBlock h) (Type h) (Length h),
                   Msg ''Unable to decode track''],
                 status := Some (case status w of None \<Rightarrow> 200 | Some c \<Rightarrow> c),
                 body := body w @ r\<rparr>)"
    by (simp add: logf_def inv(1))
qed

text \<open>
  Claim C7 as it is written has a header of type 127 rejected and not forwarded. The bytes
  \<open>FF 00 00 01\<close> are a header of type 127 with the last-block flag and length 1: the
  walk writes the header and the body byte and ends normally, with the audio bytes left
  to copy.
\<close>

theorem type_127_block_is_forwarded:
  "parseBlockHeader [0xFF, 0, 0, 1, 0xAA, 0xFF, 0xF8] =
     Inr (\<lparr>LastBlock = True, Type = 127, Length = 1\<rparr>, [0xAA, 0xFF, 0xF8]) \<and>
   walkBlocks [0xFF, 0, 0, 1, 0xAA, 0xFF, 0xF8] (newResponse None) =
     (Some [0xFF, 0xF8],
      \<lparr>status = Some 200, body = [0xFF, 0, 0, 1, 0xAA], room = None,
       logs = [Block True 127 1], effects = [], panicked = False\<rparr>)"
  by (simp add: parseBlockHeader_bytes walkBlocks_bytes Write_def CopyN_def Copy_def
      WriteHeader_def Let_def logf_def newResponse_def)

text \<open>
  The theorem on the block of type 127 above, and on a block that declares three bytes
  where one is left.
\<close>

theorem walker_forwards_type_127_witness:
  "parseBlockHeader [0xFF, 0, 0, 1, 0xAA, 0xFF, 0xF8] =
     Inr (\<lparr>LastBlock = True, Type = 127, Length = 1\<rparr>, [0xAA, 0xFF, 0xF8]) \<and>
   nat (Length \<lparr>LastBlock = True, Type = 127, Length = 1\<rparr>) \<le> length [0xAA, 0xFF, 0xF8 :: byte] \<and>
   room (newResponse None) = None \<and>
   walkBlocks [0xFF, 0, 0, 1, 0xAA, 0xFF, 0xF8] (newResponse None) =
     (Some [0xFF, 0xF8],
      \<lparr>status = Some 200, body = [0xFF, 0, 0, 1, 0xAA], room = None,
       logs = [Block True 127 1], effects = [], panicked = False\<rparr>) \<and>
   parseBlockHeader [0x04, 0, 0, 3, 0xAA] =
     Inr (\<lparr>LastBlock = False, Type = 4, Length = 3\<rparr>, [0xAA]) \<and>
   length [0xAA :: byte] < nat (Length \<lparr>LastBlock = False, Type = 4, Length = 3\<rparr>) \<and>
   walkBlocks [0x04, 0, 0, 3, 0xAA] (newResponse None) =
     (None,
      \<lparr>status = Some 200, body = [0x04, 0, 0, 3, 0xAA], room = None,
       logs = [Block False 4 3, Msg ''Unable to decode track''], effects = [],
       panicked = False\<rparr>)"
proof -
  have p1: "parseBlockHeader [0xFF, 0, 0, 1, 0xAA, 0xFF, 0xF8] =
     Inr (\<lparr>LastBlock = True, Type = 127, Length = 1\<rparr>, [0xAA, 0xFF, 0xF8])"
    by (simp add: parseBlockHeader_bytes)
  have p2: "parseBlockHeader [0x04, 0, 0, 3, 0xAA] =
     Inr (\<lparr>LastBlock = False, Type = 4, Length = 3\<rparr>, [0xAA])"
    by (simp add: parseBlockHeader_bytes)
  have r: "room (newResponse None) = None"
    by (simp add: newResponse_def)
  from walker_forwards_type_127 [of "[0xFF, 0, 0, 1, 0xAA, 0xFF, 0xF8]"
      "\<lparr>LastBlock = True, Type = 127, Length = 1\<rparr>" "[0xAA, 0xFF, 0xF8]" "newResponse None"] p1 r
  have w1: "walkBlocks [0xFF, 0, 0, 1, 0xAA, 0xFF, 0xF8] (newResponse None) =
     (Some [0xFF, 0xF8],
      \<lparr>status = Some 200, body = [0xFF, 0, 0, 1, 0xAA], room = None,
       logs = [Block True 127 1], effects = [], panicked = False\<rparr>)"
    by (simp add: newResponse_def)
  from walker_forwards_type_127 [of "[0x04, 0, 0, 3, 0xAA]"
      "\<lparr>LastBlock = False, Type = 4, Length = 3\<rparr>" "[0xAA]" "newResponse None"] p2 r
  have w2: "walkBlocks [0x04, 0, 0, 3, 0xAA] (newResponse None) =
     (None,
      \<lparr>status = Some 200, body = [0x04, 0, 0, 3, 0xAA], room = None,
       logs = [Block False 4 3, Msg ''Unable to decode track''], effects = [],
       panicked = False\<rparr>)"
    by (simp add: newResponse_def)
  from p1 p2 r w1 w2 show ?thesis by simp
qed

text \<open>
  Claim C2 asks for a TAGS block to be added, as the last metadata block, when the file
  has none. The loop of \<^verbatim>\<open>src/unnamed/part_002\<close> only copies: the comment after it (lines
  223-225) still lists the insertion as work to do. On the example file, whose metadata
  blocks are STREAMINFO and a last PADDING block, the response is the file byte for byte:
  the one block walked is the PADDING block, its last-block flag is still set, and no
  block of type 4 is written.
\<close>

theorem no_tags_block_is_added:
  "parseBlockHeader (drop 4 exampleFlac) =
     Inr (\<lparr>LastBlock = False, Type = 0, Length = 34\<rparr>, drop 8 exampleFlac) \<and>
   parseBlockHeader (drop 42 exampleFlac) =
     Inr (\<lparr>LastBlock = True, Type = 1, Length = 2\<rparr>, drop 46 exampleFlac) \<and>
   trackHandler_part002 (exampleEnv (Response 200 exampleJSON) (Response 200 exampleFlac))
     exampleRequest (newResponse None) =
   \<lparr>status = Some 200, body = exampleFlac, room = None, logs = [Block True 1 2],
    effects = [ImpalaLogin, ImpalaGetTrack ''01234567-89ab-cdef-0123-456789abcdef'',
      MossGet ''h1'' ''a/b.flac''],
    panicked = False\<rparr>"
proof -
  have "trackHandler_part002 (exampleEnv (Response 200 exampleJSON) (Response 200 exampleFlac))
     exampleRequest (newResponse None) =
     streamTrack exampleFlac
       \<lparr>status = None, body = [], room = None, logs = [],
        effects = [ImpalaLogin, ImpalaGetTrack ''01234567-89ab-cdef-0123-456789abcdef'',
          MossGet ''h1'' ''a/b.flac''],
        panicked = False\<rparr>"
    by (simp add: handler_part002_example failed_def effect_def newResponse_def)
  also have "\<dots> = \<lparr>status = Some 200, body = exampleFlac, room = None, logs = [Block True 1 2],
    effects = [ImpalaLogin, ImpalaGetTrack ''01234567-89ab-cdef-0123-456789abcdef'',
      MossGet ''h1'' ''a/b.flac''],
    panicked = False\<rparr>"
    by (simp add: streamTrack_def exampleFlac_bytes magic_bytes ReadFull_def Write_def
      CopyN_def Copy_def WriteHeader_def Let_def walkBlocks_bytes walkBlocks_short logf_def)
  finally show ?thesis
    by (simp add: exampleFlac_bytes parseBlockHeader_bytes)
qed

text \<open>
  Claim C5 asks that a failed fetch from the object store ends the request with an error
  status and no container bytes. In \<^verbatim>\<open>src/unnamed/part_002\<close> the branch for a failed fetch
  (lines 152-155) has no \<^verbatim>\<open>return\<close>: when the object store answers 404 with a body, the
  handler sends the 500 answer and then streams that body after it; when the fetch gives
  no response at all, the handler panics on \<^verbatim>\<open>resp.Body\<close>. The handler of
  \<^verbatim>\<open>src/main.go\<close> returns in the same branch (line 129) and sends the 500 answer only.
\<close>

theorem failed_fetch_goes_on:
  "trackHandler_part002 (exampleEnv (Response 200 exampleJSON) (Response 404 exampleFlac))
     exampleRequest (newResponse None) =
   \<lparr>status = Some 500, body = bytes_of ''Internal Server Error\<newline>'' @ exampleFlac,
    room = None, logs = [Msg ''Unable to access track'', Block True 1 2],
    effects = [ImpalaLogin, ImpalaGetTrack ''01234567-89ab-cdef-0123-456789abcdef'',
      MossGet ''h1'' ''a/b.flac''],
    panicked = False\<rparr> \<and>
   panicked (trackHandler_part002 (exampleEnv (Response 200 exampleJSON) TransportError)
     exampleRequest (newResponse None)) \<and>
   trackHandler (exampleEnv (Response 200 exampleJSON) (Response 404 exampleFlac))
     exampleRequest (newResponse None) =
   \<lparr>status = Some 500, body = bytes_of ''Internal Server Error\<newline>'',
    room = None, logs = [Msg ''Failed to access track''],
    effects = [ImpalaLogin, ImpalaGetTrack ''01234567-89ab-cdef-0123-456789abcdef'',
      MossGet ''h1'' ''a/b.flac''],
    panicked = False\<rparr>"
proof -
  let ?w = "\<lparr>status = Some 500, body = bytes_of ''Internal Server Error\<newline>'', room = None,
      logs = [Msg ''Unable to access track''],
      effects = [ImpalaLogin, ImpalaGetTrack ''01234567-89ab-cdef-0123-456789abcdef'',
        MossGet ''h1'' ''a/b.flac''],
      panicked = False\<rparr>"
  have "trackHandler_part002 (exampleEnv (Response 200 exampleJSON) (Response 404 exampleFlac))
     exampleRequest (newResponse None) = streamTrack exampleFlac ?w"
    by (simp add: handler_part002_example failed_def effect_def newResponse_def
      fail500_def Error_def Write_def WriteHeader_def logf_def)
  also have "\<dots> = ?w\<lparr>body := bytes_of ''Internal Server Error\<newline>'' @ exampleFlac,
      logs := [Msg ''Unable to access track'', Block True 1 2]\<rparr>"
    by (simp add: streamTrack_def exampleFlac_bytes magic_bytes ReadFull_def Write_def
      CopyN_def Copy_def WriteHeader_def Let_def walkBlocks_bytes walkBlocks_short logf_def
      error_body)
  finally have a: "trackHandler_part002 (exampleEnv (Response 200 exampleJSON) (Response 404 exampleFlac))
     exampleRequest (newResponse None) =
     \<lparr>status = Some 500, body = bytes_of ''Internal Server Error\<newline>'' @ exampleFlac,
      room = None, logs = [Msg ''Unable to access track'', Block True 1 2],
      effects = [ImpalaLogin, ImpalaGetTrack ''01234567-89ab-cdef-0123-456789abcdef'',
        MossGet ''h1'' ''a/b.flac''],
      panicked = False\<rparr>"
    by simp
  have b: "panicked (trackHandler_part002 (exampleEnv (Response 200 exampleJSON) TransportError)
     exampleRequest (newResponse None))"
    by (simp add: handler_part002_example Let_def)
  have c: "trackHandler (exampleEnv (Response 200 exampleJSON) (Response 404 exampleFlac))
     exampleRequest (newResponse None) =
   \<lparr>status = Some 500, body = bytes_of ''Internal Server Error\<newline>'',
    room = None, logs = [Msg ''Failed to access track''],
    effects = [ImpalaLogin, ImpalaGetTrack ''01234567-89ab-cdef-0123-456789abcdef'',
      MossGet ''h1'' ''a/b.flac''],
    panicked = False\<rparr>"
    by (simp add: handler_example [OF exampleRequest_fields(1,2)] failed_def effect_def
      newResponse_def fail500_def Error_def Write_def WriteHeader_def logf_def)
  from a b c show ?thesis by simp
qed

text \<open>
  Claim C6, as the code has it. When the object store answers 200 with a body whose first
  four bytes are not the signature, or that has fewer than four bytes, the handler answers
  500 with the body \<^verbatim>\<open>Internal Server Error\<close> and a newline (what of it the client takes) and
  logs "Unable to decode track"; no byte of the file is written.
\<close>

theorem bad_signature_answer:
  assumes "Method r = ''GET''" and "trackRe (Path r) = [p, i]"
    and "fst (loadTrackInfo e i (newResponse rm)) = Inr data"
    and "mossGet e (Holding_ID data) (File_Path data) = Response 200 b"
    and "take 4 b \<noteq> magic"
  shows "status (trackHandler_part002 e r (newResponse rm)) = Some 500 \<and>
    body (trackHandler_part002 e r (newResponse rm)) =
      delivered rm (bytes_of ''Internal Server Error\<newline>'') \<and>
    logs (trackHandler_part002 e r (newResponse rm)) = [Msg ''Unable to decode track'']"
  by (simp add: handler_part002_fetched [OF assms(1-4)] stream_bad_magic [OF assms(5)]
      fail500_fields effect_fields newResponse_fields)

text \<open>
  Claim C6 as it is written has zero body bytes written. For a body that starts with
  \<^verbatim>\<open>RIFF\<close> the response has status 500 and a body of 22 bytes, the message of
  \<^verbatim>\<open>http.Error\<close>.
\<close>

theorem bad_signature_body_not_empty:
  "take 4 (bytes_of ''RIFFWAVE'') \<noteq> magic \<and>
   status (trackHandler_part002 (exampleEnv (Response 200 exampleJSON) (Response 200 (bytes_of ''RIFFWAVE'')))
     exampleRequest (newResponse None)) = Some 500 \<and>
   body (trackHandler_part002 (exampleEnv (Response 200 exampleJSON) (Response 200 (bytes_of ''RIFFWAVE'')))
     exampleRequest (newResponse None)) = bytes_of ''Internal Server Error\<newline>'' \<and>
   body (trackHandler_part002 (exampleEnv (Response 200 exampleJSON) (Response 200 (bytes_of ''RIFFWAVE'')))
     exampleRequest (newResponse None)) \<noteq> []"
  by (simp add: handler_part002_example failed_def effect_def newResponse_def
      fail500_def Error_def Write_def WriteHeader_def logf_def streamTrack_def ReadFull_def
      magic_bytes bytes_of_def)

text \<open>
  A body that ends after three bytes of the signature, and a client that takes only eight
  bytes of the answer.
\<close>

theorem bad_signature_answer_witness:
  "Method exampleRequest = ''GET'' \<and>
   trackRe (Path exampleRequest) = [examplePath, ''01234567-89ab-cdef-0123-456789abcdef''] \<and>
   fst (loadTrackInfo (exampleEnv (Response 200 exampleJSON) (Response 200 [0x66, 0x4C, 0x61]))
      ''01234567-89ab-cdef-0123-456789abcdef'' (newResponse (Some 8))) = Inr exampleTrack \<and>
   mossGet (exampleEnv (Response 200 exampleJSON) (Response 200 [0x66, 0x4C, 0x61]))
       (Holding_ID exampleTrack) (File_Path exampleTrack) = Response 200 [0x66, 0x4C, 0x61] \<and>
   take 4 [0x66, 0x4C, 0x61] \<noteq> magic \<and>
   status (trackHandler_part002 (exampleEnv (Response 200 exampleJSON) (Response 200 [0x66, 0x4C, 0x61]))
     exampleRequest (newResponse (Some 8))) = Some 500 \<and>
   body (trackHandler_part002 (exampleEnv (Response 200 exampleJSON) (Response 200 [0x66, 0x4C, 0x61]))
     exampleRequest (newResponse (Some 8))) = bytes_of ''Internal'' \<and>
   logs (trackHandler_part002 (exampleEnv (Response 200 exampleJSON) (Response 200 [0x66, 0x4C, 0x61]))
     exampleRequest (newResponse (Some 8))) = [Msg ''Unable to decode track'']"
proof -
  have a: "Method exampleRequest = ''GET''"
    by (simp add: exampleRequest_def)
  have b: "trackRe (Path exampleRequest) =
      [examplePath, ''01234567-89ab-cdef-0123-456789abcdef'']"
    by (simp add: exampleRequest_def trackRe_example)
  have c: "fst (loadTrackInfo (exampleEnv (Response 200 exampleJSON) (Response 200 [0x66, 0x4C, 0x61]))
      ''01234567-89ab-cdef-0123-456789abcdef'' (newResponse (Some 8))) = Inr exampleTrack"
    by (simp add: load_example)
  have d: "mossGet (exampleEnv (Response 200 exampleJSON) (Response 200 [0x66, 0x4C, 0x61]))
       (Holding_ID exampleTrack) (File_Path exampleTrack) = Response 200 [0x66, 0x4C, 0x61]"
    by (simp add: exampleEnv_def)
  have e: "take 4 [0x66, 0x4C, 0x61] \<noteq> magic"
    by (simp add: magic_bytes)
  from bad_signature_answer [OF a b c d e] a b c d e show ?thesis
    by (simp add: delivered_def bytes_of_def)
qed

section \<open>Claims about the handler of src/main.go\<close>

text \<open>
  Claim C1 asks for the four protected tags to be overwritten with the values of the
  catalog. In \<^verbatim>\<open>src/main.go\<close> the input given to \<^verbatim>\<open>metaflac\<close> takes the artist and the title
  from the catalog record and sets ALBUM and LABEL to the constant \<^verbatim>\<open>dmca test\<close>; the
  comment on line 153 says that the data of the catalog is still to be used for them. For
  the example track, this is the call of \<^verbatim>\<open>metaflac\<close> that the handler makes.
\<close>

theorem album_and_label_not_from_catalog:
  "metaflacStdin exampleTrack =
     ''ARTIST=A\<newline>TITLE=T\<newline>ALBUM=dmca test\<newline>LABEL=dmca test\<newline>'' \<and>
   effects (trackHandler (exampleEnv (Response 200 exampleJSON) (Response 200 exampleFlac))
     exampleRequest (newResponse None)) =
   [ImpalaLogin, ImpalaGetTrack ''01234567-89ab-cdef-0123-456789abcdef'',
    MossGet ''h1'' ''a/b.flac'', TempFile, TempWrite exampleFlac, TempClose,
    Metaflac [''--remove-tag=ARTIST'', ''--remove-tag=TITLE'', ''--remove-tag=ALBUM'',
       ''--remove-tag=LABEL'', ''--import-tags-from=-'']
      ''ARTIST=A\<newline>TITLE=T\<newline>ALBUM=dmca test\<newline>LABEL=dmca test\<newline>'',
    OpenTemp, RemoveTemp]"
proof -
  have s: "metaflacStdin exampleTrack =
     ''ARTIST=A\<newline>TITLE=T\<newline>ALBUM=dmca test\<newline>LABEL=dmca test\<newline>''"
    by (simp add: metaflacStdin_def exampleTrack_fields)
  let ?e = "exampleEnv (Response 200 exampleJSON) (Response 200 exampleFlac)"
  have "serveTagged ?e exampleRequest exampleTrack exampleFlac w =
     effect RemoveTemp (ServeContent ?e exampleRequest exampleFlac (effect OpenTemp
       (effect (Metaflac metaflacArgs (metaflacStdin exampleTrack))
         (effect TempClose (effect (TempWrite exampleFlac) (effect TempFile w))))))" for w
    by (rule serveTagged_ok) (simp_all add: exampleEnv_def accepts_def)
  then show ?thesis
    by (simp add: handler_example [OF exampleRequest_fields(1,2)] failed_def Let_def
        effect_fields ServeContent_fields newResponse_fields s metaflacArgs_def)
qed

text \<open>
  Claim C4 as it is written has the file never stored whole, in memory or on disk. For the
  example request the whole file is written to the temporary file before it is served.
\<close>

theorem whole_file_written_to_disk:
  "TempWrite exampleFlac \<in> set (effects
     (trackHandler (exampleEnv (Response 200 exampleJSON) (Response 200 exampleFlac))
        exampleRequest (newResponse None))) \<and>
   body (trackHandler (exampleEnv (Response 200 exampleJSON) (Response 200 exampleFlac))
        exampleRequest (newResponse None)) = exampleFlac"
proof -
  let ?e = "exampleEnv (Response 200 exampleJSON) (Response 200 exampleFlac)"
  have "serveTagged ?e exampleRequest exampleTrack exampleFlac w =
     effect RemoveTemp (ServeContent ?e exampleRequest exampleFlac (effect OpenTemp
       (effect (Metaflac metaflacArgs (metaflacStdin exampleTrack))
         (effect TempClose (effect (TempWrite exampleFlac) (effect TempFile w))))))" for w
    by (rule serveTagged_ok) (simp_all add: exampleEnv_def accepts_def)
  then show ?thesis
    by (simp add: handler_example [OF exampleRequest_fields(1,2)] failed_def Let_def
        effect_fields ServeContent_fields newResponse_fields delivered_def
        servedContent_def conditional_examples)
qed

text \<open>
  Claim C4, as the code has it. For a GET request with an accepted path, when the catalog
  gives the track and the object store answers 200 with a body \<open>b\<close>, \<^verbatim>\<open>src/main.go\<close> creates a
  temporary file and copies the whole body into it, closes it, runs \<^verbatim>\<open>metaflac\<close> on it,
  opens it again and hands it to \<^verbatim>\<open>http.ServeContent\<close>; the file is removed at the end.
  Every step is covered. When the file cannot be created, the disk does not take the
  whole body, the file cannot be closed, \<^verbatim>\<open>metaflac\<close> fails or the file cannot be opened
  again, the answer is 500 with the body \<^verbatim>\<open>Internal Server Error\<close>, a line is logged, and
  the steps made are those before the failure. When all steps succeed, a request with no
  range and no condition is answered 200 with the whole file as \<^verbatim>\<open>metaflac\<close> left it, and
  a request with one is answered as \<^verbatim>\<open>http.ServeContent\<close> answers it (206 and a part of the
  file, for a range). The body of the response is always what the client takes of it.
\<close>

theorem file_is_stored_then_served:
  assumes "Method r = ''GET''" and "acceptedPath (Path r)"
    and "\<not> newRequestFails e" and "\<not> loginFails e"
    and "impalaGet e (take 36 (drop 7 (Path r))) = Response 200 c"
    and "jsonDecode e c = Some track"
    and "mossGet e (Holding_ID track) (File_Path track) = Response 200 b"
  shows
    "(tempFileFails e \<longrightarrow>
        effects (trackHandler e r (newResponse rm)) =
          [ImpalaLogin, ImpalaGetTrack (take 36 (drop 7 (Path r))),
           MossGet (Holding_ID track) (File_Path track)] \<and>
        status (trackHandler e r (newResponse rm)) = Some 500 \<and>
        body (trackHandler e r (newResponse rm)) =
          delivered rm (bytes_of ''Internal Server Error\<newline>'') \<and>
        logs (trackHandler e r (newResponse rm)) = [Msg ''Failed to create temporary file'']) \<and>
     (\<not> tempFileFails e \<and> \<not> accepts (diskRoom e) (length b) \<longrightarrow>
        effects (trackHandler e r (newResponse rm)) =
          [ImpalaLogin, ImpalaGetTrack (take 36 (drop 7 (Path r))),
           MossGet (Holding_ID track) (File_Path track),
           TempFile, TempWrite (delivered (diskRoom e) b), RemoveTemp] \<and>
        status (trackHandler e r (newResponse rm)) = Some 500 \<and>
        body (trackHandler e r (newResponse rm)) =
          delivered rm (bytes_of ''Internal Server Error\<newline>'') \<and>
        logs (trackHandler e r (newResponse rm)) = [Msg ''Failed to download track'']) \<and>
     (\<not> tempFileFails e \<and> accepts (diskRoom e) (length b) \<and> closeFails e \<longrightarrow>
        effects (trackHandler e r (newResponse rm)) =
          [ImpalaLogin, ImpalaGetTrack (take 36 (drop 7 (Path r))),
           MossGet (Holding_ID track) (File_Path track),
           TempFile, TempWrite b, TempClose, RemoveTemp] \<and>
        status (trackHandler e r (newResponse rm)) = Some 500 \<and>
        body (trackHandler e r (newResponse rm)) =
          delivered rm (bytes_of ''Internal Server Error\<newline>'') \<and>
        logs (trackHandler e r (newResponse rm)) = [Msg ''Failed to close temporary file'']) \<and>
     (\<not> tempFileFails e \<and> accepts (diskRoom e) (length b) \<and> \<not> closeFails e \<and>
      metaflac e metaflacArgs (metaflacStdin track) b = None \<longrightarrow>
        effects (trackHandler e r (newResponse rm)) =
          [ImpalaLogin, ImpalaGetTrack (take 36 (drop 7 (Path r))),
           MossGet (Holding_ID track) (File_Path track),
           TempFile, TempWrite b, TempClose, Metaflac metaflacArgs (metaflacStdin track),
           RemoveTemp] \<and>
        status (trackHandler e r (newResponse rm)) = Some 500 \<and>
        body (trackHandler e r (newResponse rm)) =
          delivered rm (bytes_of ''Internal Server Error\<newline>'') \<and>
        logs (trackHandler e r (newResponse rm)) = [Msg ''Failed to modify track metadata'']) \<and>
     (\<not> tempFileFails e \<and> accepts (diskRoom e) (length b) \<and> \<not> closeFails e \<and>
      metaflac e metaflacArgs (metaflacStdin track) b = Some f \<and> openFails e \<longrightarrow>
        effects (trackHandler e r (newResponse rm)) =
          [ImpalaLogin, ImpalaGetTrack (take 36 (drop 7 (Path r))),
           MossGet (Holding_ID track) (File_Path track),
           TempFile, TempWrite b, TempClose, Metaflac metaflacArgs (metaflacStdin track),
           RemoveTemp] \<and>
        status (trackHandler e r (newResponse rm)) = Some 500 \<and>
        body (trackHandler e r (newResponse rm)) =
          delivered rm (bytes_of ''Internal Server Error\<newline>'') \<and>
        logs (trackHandler e r (newResponse rm)) = [Msg ''Failed to load track'']) \<and>
     (\<not> tempFileFails e \<and> accepts (diskRoom e) (length b) \<and> \<not> closeFails e \<and>
      metaflac e metaflacArgs (metaflacStdin track) b = Some f \<and> \<not> openFails e \<longrightarrow>
        effects (trackHandler e r (newResponse rm)) =
          [ImpalaLogin, ImpalaGetTrack (take 36 (drop 7 (Path r))),
           MossGet (Holding_ID track) (File_Path track),
           TempFile, TempWrite b, TempClose, Metaflac metaflacArgs (metaflacStdin track),
           OpenTemp, RemoveTemp] \<and>
        status (trackHandler e r (newResponse rm)) =
          Some (if conditional r then fst (serveConditional e r f) else 200) \<and>
        body (trackHandler e r (newResponse rm)) =
          delivered rm (if conditional r then snd (serveConditional e r f) else f) \<and>
        logs (trackHandler e r (newResponse rm)) = [])"
proof (intro conjI impI)
  note h = handler_accepted [OF assms]
  note fs = effect_fields fail500_fields newResponse_fields
  {
    assume "tempFileFails e"
    then have s: "trackHandler e r (newResponse rm) =
        fail500 ''Failed to create temporary file''
          (effect (MossGet (Holding_ID track) (File_Path track))
            (effect (ImpalaGetTrack (take 36 (drop 7 (Path r))))
              (effect ImpalaLogin (newResponse rm))))"
      by (simp add: h serveTagged_no_file)
    show "effects (trackHandler e r (newResponse rm)) =
          [ImpalaLogin, ImpalaGetTrack (take 36 (drop 7 (Path r))),
           MossGet (Holding_ID track) (File_Path track)]"
      and "status (trackHandler e r (newResponse rm)) = Some 500"
      and "body (trackHandler e r (newResponse rm)) =
          delivered rm (bytes_of ''Internal Server Error\<newline>'')"
      and "logs (trackHandler e r (newResponse rm)) = [Msg ''Failed to create temporary file'']"
      by (simp_all add: s fs)
  }
  {
    assume "\<not> tempFileFails e \<and> \<not> accepts (diskRoom e) (length b)"
    then have s: "trackHandler e r (newResponse rm) =
        effect RemoveTemp (fail500 ''Failed to download track''
          (effect (TempWrite (delivered (diskRoom e) b)) (effect TempFile
            (effect (MossGet (Holding_ID track) (File_Path track))
              (effect (ImpalaGetTrack (take 36 (drop 7 (Path r))))
                (effect ImpalaLogin (newResponse rm)))))))"
      by (simp add: h serveTagged_disk_full)
    show "effects (trackHandler e r (newResponse rm)) =
          [ImpalaLogin, ImpalaGetTrack (take 36 (drop 7 (Path r))),
           MossGet (Holding_ID track) (File_Path track),
           TempFile, TempWrite (delivered (diskRoom e) b), RemoveTemp]"
      and "status (trackHandler e r (newResponse rm)) = Some 500"
      and "body (trackHandler e r (newResponse rm)) =
          delivered rm (bytes_of ''Internal Server Error\<newline>'')"
      and "logs (trackHandler e r (newResponse rm)) = [Msg ''Failed to download track'']"
      by (simp_all add: s fs)
  }
  {
    assume "\<not> tempFileFails e \<and> accepts (diskRoom e) (length b) \<and> closeFails e"
    then have s: "trackHandler e r (newResponse rm) =
        effect RemoveTemp (fail500 ''Failed to close temporary file''
          (effect TempClose (effect (TempWrite b) (effect TempFile
            (effect (MossGet (Holding_ID track) (File_Path track))
              (effect (ImpalaGetTrack (take 36 (drop 7 (Path r))))
                (effect ImpalaLogin (newResponse rm))))))))"
      by (simp add: h serveTagged_not_closed)
    show "effects (trackHandler e r (newResponse rm)) =
          [ImpalaLogin, ImpalaGetTrack (take 36 (drop 7 (Path r))),
           MossGet (Holding_ID track) (File_Path track),
           TempFile, TempWrite b, TempClose, RemoveTemp]"
      and "status (trackHandler e r (newResponse rm)) = Some 500"
      and "body (trackHandler e r (newResponse rm)) =
          delivered rm (bytes_of ''Internal Server Error\<newline>'')"
      and "logs (trackHandler e r (newResponse rm)) = [Msg ''Failed to close temporary file'']"
      by (simp_all add: s fs)
  }
  {
    assume "\<not> tempFileFails e \<and> accepts (diskRoom e) (length b) \<and> \<not> closeFails e \<and>
      metaflac e metaflacArgs (metaflacStdin track) b = None"
    then have s: "trackHandler e r (newResponse rm) =
        effect RemoveTemp (fail500 ''Failed to modify track metadata''
          (effect (Metaflac metaflacArgs (metaflacStdin track))
            (effect TempClose (effect (TempWrite b) (effect TempFile
              (effect (MossGet (Holding_ID track) (File_Path track))
                (effect (ImpalaGetTrack (take 36 (drop 7 (Path r))))
                  (effect ImpalaLogin (newResponse rm)))))))))"
      by (simp add: h serveTagged_not_tagged)
    show "effects (trackHandler e r (newResponse rm)) =
          [ImpalaLogin, ImpalaGetTrack (take 36 (drop 7 (Path r))),
           MossGet (Holding_ID track) (File_Path track),
           TempFile, TempWrite b, TempClose, Metaflac metaflacArgs (metaflacStdin track),
           RemoveTemp]"
      and "status (trackHandler e r (newResponse rm)) = Some 500"
      and "body (trackHandler e r (newResponse rm)) =
          delivered rm (bytes_of ''Internal Server Error\<newline>'')"
      and "logs (trackHandler e r (newResponse rm)) = [Msg ''Failed to modify track metadata'']"
      by (simp_all add: s fs)
  }
  {
    assume "\<not> tempFileFails e \<and> accepts (diskRoom e) (length b) \<and> \<not> closeFails e \<and>
      metaflac e metaflacArgs (metaflacStdin track) b = Some f \<and> openFails e"
    then have s: "trackHandler e r (newResponse rm) =
        effect RemoveTemp (fail500 ''Failed to load track''
          (effect (Metaflac metaflacArgs (metaflacStdin track))
            (effect TempClose (effect (TempWrite b) (effect TempFile
              (effect (MossGet (Holding_ID track) (File_Path track))
                (effect (ImpalaGetTrack (take 36 (drop 7 (Path r))))
                  (effect ImpalaLogin (newResponse rm)))))))))"
      by (simp add: h serveTagged_not_opened)
    show "effects (trackHandler e r (newResponse rm)) =
          [ImpalaLogin, ImpalaGetTrack (take 36 (drop 7 (Path r))),
           MossGet (Holding_ID track) (File_Path track),
           TempFile, TempWrite b, TempClose, Metaflac metaflacArgs (metaflacStdin track),
           RemoveTemp]"
      and "status (trackHandler e r (newResponse rm)) = Some 500"
      and "body (trackHandler e r (newResponse rm)) =
          delivered rm (bytes_of ''Internal Server Error\<newline>'')"
      and "logs (trackHandler e r (newResponse rm)) = [Msg ''Failed to load track'']"
      by (simp_all add: s fs)
  }
  {
    assume "\<not> tempFileFails e \<and> accepts (diskRoom e) (length b) \<and> \<not> closeFails e \<and>
      metaflac e metaflacArgs (metaflacStdin track) b = Some f \<and> \<not> openFails e"
    then have s: "trackHandler e r (newResponse rm) =
        effect RemoveTemp (ServeContent e r f (effect OpenTemp
          (effect (Metaflac metaflacArgs (metaflacStdin track))
            (effect TempClose (effect (TempWrite b) (effect TempFile
              (effect (MossGet (Holding_ID track) (File_Path track))
                (effect (ImpalaGetTrack (take 36 (drop 7 (Path r))))
                  (effect ImpalaLogin (newResponse rm))))))))))"
      by (simp add: h serveTagged_ok)
    show "effects (trackHandler e r (newResponse rm)) =
          [ImpalaLogin, ImpalaGetTrack (take 36 (drop 7 (Path r))),
           MossGet (Holding_ID track) (File_Path track),
           TempFile, TempWrite b, TempClose, Metaflac metaflacArgs (metaflacStdin track),
           OpenTemp, RemoveTemp]"
      and "status (trackHandler e r (newResponse rm)) =
          Some (if conditional r then fst (serveConditional e r f) else 200)"
      and "body (trackHandler e r (newResponse rm)) =
          delivered rm (if conditional r then snd (serveConditional e r f) else f)"
      and "logs (trackHandler e r (newResponse rm)) = []"
      by (simp_all add: s fs ServeContent_fields servedContent_def)
  }
qed

text \<open>
  The example request with a client that takes the first ten bytes; the request for the
  range \<^verbatim>\<open>bytes=0-3\<close>; the example request with a disk that takes eight bytes; and the
  example request with a \<^verbatim>\<open>metaflac\<close> that fails.
\<close>

theorem file_is_stored_then_served_witness:
  "Method exampleRequest = ''GET'' \<and> acceptedPath (Path exampleRequest) \<and>
   take 36 (drop 7 (Path exampleRequest)) = ''01234567-89ab-cdef-0123-456789abcdef'' \<and>
   \<not> newRequestFails exampleServing \<and> \<not> loginFails exampleServing \<and>
   impalaGet exampleServing ''01234567-89ab-cdef-0123-456789abcdef'' =
     Response 200 exampleJSON \<and>
   jsonDecode exampleServing exampleJSON = Some exampleTrack \<and>
   mossGet exampleServing (Holding_ID exampleTrack) (File_Path exampleTrack) =
     Response 200 exampleFlac \<and>
   \<not> tempFileFails exampleServing \<and>
   accepts (diskRoom exampleServing) (length exampleFlac) \<and>
   \<not> closeFails exampleServing \<and>
   metaflac exampleServing metaflacArgs (metaflacStdin exampleTrack) exampleFlac =
     Some exampleFlac \<and>
   \<not> openFails exampleServing \<and> \<not> conditional exampleRequest \<and>
   effects (trackHandler exampleServing exampleRequest (newResponse (Some 10))) =
     [ImpalaLogin, ImpalaGetTrack ''01234567-89ab-cdef-0123-456789abcdef'',
      MossGet ''h1'' ''a/b.flac'', TempFile, TempWrite exampleFlac, TempClose,
      Metaflac metaflacArgs (metaflacStdin exampleTrack), OpenTemp, RemoveTemp] \<and>
   status (trackHandler exampleServing exampleRequest (newResponse (Some 10))) = Some 200 \<and>
   body (trackHandler exampleServing exampleRequest (newResponse (Some 10))) =
     take 10 exampleFlac \<and>
   Method rangeRequest = ''GET'' \<and> acceptedPath (Path rangeRequest) \<and>
   conditional rangeRequest \<and>
   effects (trackHandler exampleServing rangeRequest (newResponse None)) =
     [ImpalaLogin, ImpalaGetTrack ''01234567-89ab-cdef-0123-456789abcdef'',
      MossGet ''h1'' ''a/b.flac'', TempFile, TempWrite exampleFlac, TempClose,
      Metaflac metaflacArgs (metaflacStdin exampleTrack), OpenTemp, RemoveTemp] \<and>
   status (trackHandler exampleServing rangeRequest (newResponse None)) = Some 206 \<and>
   body (trackHandler exampleServing rangeRequest (newResponse None)) =
     take 4 exampleFlac \<and>
   \<not> tempFileFails (exampleServing\<lparr>diskRoom := Some 8\<rparr>) \<and>
   \<not> accepts (diskRoom (exampleServing\<lparr>diskRoom := Some 8\<rparr>)) (length exampleFlac) \<and>
   effects (trackHandler (exampleServing\<lparr>diskRoom := Some 8\<rparr>) exampleRequest
       (newResponse None)) =
     [ImpalaLogin, ImpalaGetTrack ''01234567-89ab-cdef-0123-456789abcdef'',
      MossGet ''h1'' ''a/b.flac'', TempFile, TempWrite (take 8 exampleFlac), RemoveTemp] \<and>
   status (trackHandler (exampleServing\<lparr>diskRoom := Some 8\<rparr>) exampleRequest
       (newResponse None)) = Some 500 \<and>
   body (trackHandler (exampleServing\<lparr>diskRoom := Some 8\<rparr>) exampleRequest
       (newResponse None)) = bytes_of ''Internal Server Error\<newline>'' \<and>
   metaflac (exampleServing\<lparr>metaflac := (\<lambda>a s f. None)\<rparr>) metaflacArgs
     (metaflacStdin exampleTrack) exampleFlac = None \<and>
   effects (trackHandler (exampleServing\<lparr>metaflac := (\<lambda>a s f. None)\<rparr>) exampleRequest
       (newResponse None)) =
     [ImpalaLogin, ImpalaGetTrack ''01234567-89ab-cdef-0123-456789abcdef'',
      MossGet ''h1'' ''a/b.flac'', TempFile, TempWrite exampleFlac, TempClose,
      Metaflac metaflacArgs (metaflacStdin exampleTrack), RemoveTemp] \<and>
   status (trackHandler (exampleServing\<lparr>metaflac := (\<lambda>a s f. None)\<rparr>) exampleRequest
       (newResponse None)) = Some 500 \<and>
   body (trackHandler (exampleServing\<lparr>metaflac := (\<lambda>a s f. None)\<rparr>) exampleRequest
       (newResponse None)) = bytes_of ''Internal Server Error\<newline>''"
proof -
  let ?i = "''01234567-89ab-cdef-0123-456789abcdef''"
  let ?d = "exampleServing\<lparr>diskRoom := Some 8\<rparr>"
  let ?m = "exampleServing\<lparr>metaflac := (\<lambda>a s f. None)\<rparr>"
  note x = exampleServing_fields
  note q = exampleRequest_fields rangeRequest_fields accepted_example conditional_examples
  have n: "length exampleFlac = 52"
    by (simp add: exampleFlac_bytes)
  have a: "accepts (diskRoom exampleServing) (length exampleFlac)"
    "\<not> accepts (diskRoom ?d) (length exampleFlac)"
    "accepts (diskRoom ?m) (length exampleFlac)"
    "delivered (diskRoom ?d) exampleFlac = take 8 exampleFlac"
    by (simp_all add: x accepts_def delivered_def n)
  have t1: "effects (trackHandler exampleServing exampleRequest (newResponse (Some 10))) =
     [ImpalaLogin, ImpalaGetTrack ?i, MossGet ''h1'' ''a/b.flac'', TempFile,
      TempWrite exampleFlac, TempClose, Metaflac metaflacArgs (metaflacStdin exampleTrack),
      OpenTemp, RemoveTemp]"
    "status (trackHandler exampleServing exampleRequest (newResponse (Some 10))) = Some 200"
    "body (trackHandler exampleServing exampleRequest (newResponse (Some 10))) =
       take 10 exampleFlac"
    using file_is_stored_then_served [where r = exampleRequest and e = "exampleServing" and c = exampleJSON
        and track = exampleTrack and b = exampleFlac and f = exampleFlac and rm = "Some 10"]
    by (simp_all add: x q accepts_def n exampleTrack_fields delivered_def)
  have t2: "effects (trackHandler exampleServing rangeRequest (newResponse None)) =
     [ImpalaLogin, ImpalaGetTrack ?i, MossGet ''h1'' ''a/b.flac'', TempFile,
      TempWrite exampleFlac, TempClose, Metaflac metaflacArgs (metaflacStdin exampleTrack),
      OpenTemp, RemoveTemp]"
    "status (trackHandler exampleServing rangeRequest (newResponse None)) = Some 206"
    "body (trackHandler exampleServing rangeRequest (newResponse None)) =
       take 4 exampleFlac"
    using file_is_stored_then_served [where r = rangeRequest and e = "exampleServing" and c = exampleJSON
        and track = exampleTrack and b = exampleFlac and f = exampleFlac and rm = "None"]
    by (simp_all add: x q accepts_def n exampleTrack_fields delivered_def firstFour_def)
  have t3: "effects (trackHandler ?d exampleRequest (newResponse None)) =
     [ImpalaLogin, ImpalaGetTrack ?i, MossGet ''h1'' ''a/b.flac'', TempFile,
      TempWrite (take 8 exampleFlac), RemoveTemp]"
    "status (trackHandler ?d exampleRequest (newResponse None)) = Some 500"
    "body (trackHandler ?d exampleRequest (newResponse None)) =
       bytes_of ''Internal Server Error\<newline>''"
    using file_is_stored_then_served [where r = exampleRequest and e = "?d" and c = exampleJSON
        and track = exampleTrack and b = exampleFlac and f = exampleFlac and rm = "None"]
    by (simp_all add: x q accepts_def n exampleTrack_fields delivered_def)
  have t4: "effects (trackHandler ?m exampleRequest (newResponse None)) =
     [ImpalaLogin, ImpalaGetTrack ?i, MossGet ''h1'' ''a/b.flac'', TempFile,
      TempWrite exampleFlac, TempClose, Metaflac metaflacArgs (metaflacStdin exampleTrack),
      RemoveTemp]"
    "status (trackHandler ?m exampleRequest (newResponse None)) = Some 500"
    "body (trackHandler ?m exampleRequest (newResponse None)) =
       bytes_of ''Internal Server Error\<newline>''"
    using file_is_stored_then_served [where r = exampleRequest and e = "?m" and c = exampleJSON
        and track = exampleTrack and b = exampleFlac and f = exampleFlac and rm = "None"]
    by (simp_all add: x q accepts_def n exampleTrack_fields delivered_def)
  from t1 t2 t3 t4 a(1,2) show ?thesis
    by (simp add: x q)
qed




end
